theory Spec2Isabelle
  imports Complex_Main "HOL-Library.Char_ord" "HOL-Library.List_Lexorder"
begin

section \<open>Exceptions\<close>

text \<open>
  Every \<^verbatim>\<open>raise\<close> and failing \<^verbatim>\<open>assert\<close> of
  \<^verbatim>\<open>theano/sandbox/gpuarray/dnn.py\<close> is a value of this type; a function that can
  raise returns \<open>error + 'a\<close> with \<open>Inl\<close> for the exception.
\<close>

datatype error =
    TypeError string
  | ValueError string
  | RuntimeError string
  | Exception string "string option"
  | AssertionError
  | AttributeError
  | IndexError
  | UnboundLocalError string
  | ZeroDivisionError

section \<open>The availability gate: \<^verbatim>\<open>dnn_available\<close> and \<^verbatim>\<open>version\<close>\<close>

text \<open>
  The function attributes \<^verbatim>\<open>dnn_available.avail\<close>, \<^verbatim>\<open>dnn_available.msg\<close> and
  \<^verbatim>\<open>version.v\<close> are the process-wide state. \<open>probe_runs\<close> is a ghost counter that the
  source does not have: it counts how often control passes the memo check of line 36 and
  enters the body of the probe.
\<close>

record gate =
  avail :: "bool option"
  msg :: "string option"
  version_v :: "int option"
  probe_runs :: nat

text \<open>
  What the probe reads from its surroundings: whether the module \<^verbatim>\<open>pygpu\<close> was imported,
  \<^verbatim>\<open>init_dev.device\<close>, the \<^verbatim>\<open>bin_id\<close> of the default context, the outcome
  \<^verbatim>\<open>(comp, err)\<close> of \<^verbatim>\<open>GCC_compiler.try_flags\<close>, the pair
  \<^verbatim>\<open>(CUDNN_VERSION, cudnnGetVersion())\<close> that running \<^verbatim>\<open>DnnVersion\<close> yields, and
  the two configuration values \<^verbatim>\<open>config.dnn.conv.algo_fwd\<close> and
  \<^verbatim>\<open>config.dnn.conv.algo_bwd\<close>.
\<close>

record env =
  pygpu_present :: bool
  device :: string
  bin_id :: string
  try_flags :: "bool \<times> string"
  dnn_version :: "int \<times> int"
  algo_fwd :: string
  algo_bwd :: string

definition initial_gate :: gate where
  "initial_gate = \<lparr>avail = None, msg = None, version_v = None, probe_runs = 0\<rparr>"

definition startswith :: "string \<Rightarrow> string \<Rightarrow> bool" where
  "startswith s p = (take (length p) s = p)"

text \<open>Python's \<^verbatim>\<open>s[:-2]\<close>: all but the last two characters, empty when there are fewer.\<close>

definition drop_last2 :: "string \<Rightarrow> string" where
  "drop_last2 s = take (length s - 2) s"

definition msg_no_pygpu :: string where
  "msg_no_pygpu = ''PyGPU not available''"

definition msg_not_cuda :: "string \<Rightarrow> string" where
  "msg_not_cuda d = ''Not on a CUDA device. Got '' @ d @ ''.''"

definition msg_device :: string where
  "msg_device = ''Device not supported by cuDNN''"

definition msg_compile :: "string \<Rightarrow> string" where
  "msg_compile err = ''Theano cannot compile with cuDNN. We got this error:'' @ [CHR 0x0A] @ err"

definition msg_old :: string where
  "msg_old = ''You have an old release of CuDNN (or a release candidate) that isn't supported.  Please update to at least v2 final version.''"

definition msg_rc :: string where
  "msg_rc = ''You have installed a release candidate of CuDNN v3. This isn't supported. Please update to v3 final version.''"

definition msg_no_version :: string where
  "msg_no_version = ''We can't determine the cudnn version as it is not available''"

definition msg_mixed :: string where
  "msg_mixed = ''Mixed dnn version.''"

text \<open>
  \<^verbatim>\<open>dnn_available\<close> (lines 35-100) and \<^verbatim>\<open>version\<close> (lines 179-199) call each other.
  The result of \<^verbatim>\<open>dnn_available\<close> is the Python value of
  \<^verbatim>\<open>dnn_available.avail\<close>: \<open>None\<close>, \<open>Some True\<close> or \<open>Some False\<close>.
  The branch of line 48 assigns \<^verbatim>\<open>msg\<close> and \<^verbatim>\<open>avail\<close> and, as in the source,
  does not return.
\<close>

function dnn_available :: "gate \<Rightarrow> env \<Rightarrow> (error + bool option) \<times> gate"
  and version :: "gate \<Rightarrow> env \<Rightarrow> (error + int) \<times> gate"
where
  "dnn_available s e =
    (case avail s of
       Some a \<Rightarrow> (Inr (Some a), s)
     | None \<Rightarrow>
        (let s0 = s\<lparr>probe_runs := Suc (probe_runs s)\<rparr> in
         if \<not> pygpu_present e then
           (Inr (Some False), s0\<lparr>msg := Some msg_no_pygpu, avail := Some False\<rparr>)
         else if \<not> startswith (device e) ''cuda'' then
           (Inr (Some False), s0\<lparr>msg := Some (msg_not_cuda (device e)), avail := Some False\<rparr>)
         else
           (let s1 = (if drop_last2 (bin_id e) < ''30''
                      then s0\<lparr>msg := Some msg_device, avail := Some False\<rparr> else s0);
                comp = fst (try_flags e);
                err = snd (try_flags e);
                s2 = s1\<lparr>avail := Some comp\<rparr>
            in if \<not> comp then (Inr (avail s2), s2\<lparr>msg := Some (msg_compile err)\<rparr>)
               else
                 (case version s2 e of
                    (Inl x, s3) \<Rightarrow> (Inl x, s3)
                  | (Inr v, s3) \<Rightarrow>
                      if v < 2000 then
                        (Inl (RuntimeError msg_old), s3\<lparr>avail := Some False, msg := Some msg_old\<rparr>)
                      else if v \<ge> 3000 \<and> v < 3007 then
                        (Inl (RuntimeError msg_rc), s3\<lparr>avail := Some False, msg := Some msg_rc\<rparr>)
                      else (Inr (avail s3), s3)))))"
| "version s e =
    (case dnn_available s e of
       (Inl x, s1) \<Rightarrow> (Inl x, s1)
     | (Inr a, s1) \<Rightarrow>
         if a \<noteq> Some True then (Inl (Exception msg_no_version (msg s1)), s1)
         else (case version_v s1 of
                 Some v \<Rightarrow> (Inr v, s1)
               | None \<Rightarrow>
                   if fst (dnn_version e) \<noteq> snd (dnn_version e) then
                     (Inl (RuntimeError msg_mixed), s1)
                   else (Inr (snd (dnn_version e)), s1\<lparr>version_v := Some (snd (dnn_version e))\<rparr>)))"
  by pat_completeness auto
termination
  by (relation "measure (\<lambda>x. case x of
          Inl (s, e) \<Rightarrow> (if avail s = None then 2 else 0)
        | Inr (s, e) \<Rightarrow> (if avail s = None then 3 else 1))") auto

declare dnn_available.simps [simp del] version.simps [simp del]



section \<open>The operator graph\<close>

text \<open>
  The sequencing of calls that can raise: the first exception ends the computation.
\<close>

definition bindE :: "error + 'a \<Rightarrow> ('a \<Rightarrow> error + 'b) \<Rightarrow> error + 'b" where
  "bindE m f = (case m of Inl x \<Rightarrow> Inl x | Inr a \<Rightarrow> f a)"

text \<open>The same for a call that also reads and writes the gate.\<close>

definition bindS :: "(error + 'a) \<times> gate \<Rightarrow> ('a \<Rightarrow> gate \<Rightarrow> (error + 'b) \<times> gate)
    \<Rightarrow> (error + 'b) \<times> gate" where
  "bindS m f = (case m of (Inl x, s) \<Rightarrow> (Inl x, s) | (Inr a, s) \<Rightarrow> f a s)"

text \<open>
  The types of graph variables that \<^verbatim>\<open>dnn.py\<close> tells apart: a GPU array with its dtype and
  rank, a host tensor, a scalar with its dtype, an opaque C handle with its C type name, and
  the types of the placeholder variables (\<^verbatim>\<open>Generic\<close>, \<^verbatim>\<open>DisconnectedType\<close>, and
  \<^verbatim>\<open>NullType\<close>, here with the position of the input whose gradient is not implemented).
\<close>

datatype vtype =
    GpuArrayType string nat
  | TensorType string nat
  | Scalar string
  | CDataType string
  | Generic
  | DisconnectedType
  | NullType nat

text \<open>The value of \<^verbatim>\<open>border_mode\<close>: an integer, a tuple of integers or a string.\<close>

datatype bmode = BM_int int | BM_tuple "int list" | BM_str string

datatype scalar_op = Log | Add | Sub | Mul | IntDiv | Cast string | OtherScalarOp string

text \<open>
  The operators. Those of \<^verbatim>\<open>dnn.py\<close> carry their \<^verbatim>\<open>__props__\<close> in the order of the
  source: \<^verbatim>\<open>GpuDnnConvDesc (border_mode, subsample, conv_mode)\<close>,
  \<^verbatim>\<open>GpuDnnConv (algo, inplace)\<close> and likewise for the two gradients,
  \<^verbatim>\<open>GpuDnnPoolDesc (ws, stride, mode, pad)\<close>, \<^verbatim>\<open>GpuDnnSoftmax (mode, algo)\<close>.
  The others are the operators of the surrounding framework that \<^verbatim>\<open>dnn.py\<close> builds
  or matches; \<^verbatim>\<open>AveragePoolGrad\<close> carries the attributes the rewrite rule reads:
  \<^verbatim>\<open>ds\<close>, \<^verbatim>\<open>ignore_border\<close>, \<^verbatim>\<open>st\<close>, \<^verbatim>\<open>padding\<close>, \<^verbatim>\<open>mode\<close>.
\<close>

datatype op =
    GpuDnnConvDesc bmode "int list" string
  | GpuDnnConv string bool
  | GpuDnnConvGradW string bool
  | GpuDnnConvGradI string bool
  | GpuDnnPoolDesc "int list" "int list" string "int list"
  | GpuDnnPool
  | GpuDnnPoolGrad
  | GpuDnnSoftmax string string
  | GpuDnnSoftmaxGrad string string
  | GpuContiguous
  | GpuAllocEmpty string
  | GpuFromHost
  | DimShuffle "nat list"
  | Shape
  | Shape_i nat
  | Subtensor_index nat
  | Subtensor_flip_last2
  | Elemwise scalar_op
  | GpuElemwise scalar_op
  | ScalarOp scalar_op
  | ScalarFromTensor
  | AveragePoolGrad "int list" bool "int list" "int list" string
  | OtherOp string

text \<open>The datum of a constant: the source only ever builds integers and the floats 0.0 and 1.0.\<close>

datatype data = IntData int | FloatData real

text \<open>
  A consumer of a variable in a function graph: the identity of the consuming node and the
  position of the variable among its inputs (an entry of \<^verbatim>\<open>Variable.clients\<close>).
\<close>

type_synonym client = "nat \<times> nat"

text \<open>
  A graph variable is a variable without owner (a graph input, or a placeholder made by
  calling a type), a constant, or the output of the application of an operator to its
  inputs; every operator here has one output. A variable carries its type and the list
  \<^verbatim>\<open>clients\<close> that the function graph keeps for it; a variable that was just built and is
  not in a graph yet has no consumer. The consumers of a constant are not recorded.
\<close>

datatype var =
    Var "string option" vtype "client list"
  | Constant vtype data
  | Out op "var list" vtype "client list"

datatype node = Apply op "var list"

fun vtype_of :: "var \<Rightarrow> vtype" where
  "vtype_of (Var n t c) = t"
| "vtype_of (Constant t d) = t"
| "vtype_of (Out f xs t c) = t"

fun owner :: "var \<Rightarrow> node option" where
  "owner (Out f xs t c) = Some (Apply f xs)"
| "owner v = None"

fun clients :: "var \<Rightarrow> client list" where
  "clients (Var n t c) = c"
| "clients (Constant t d) = []"
| "clients (Out f xs t c) = c"

fun node_op :: "node \<Rightarrow> op" where
  "node_op (Apply f xs) = f"

fun node_inputs :: "node \<Rightarrow> var list" where
  "node_inputs (Apply f xs) = xs"

text \<open>\<^verbatim>\<open>x.ndim\<close> where the variable has the attribute, \<^verbatim>\<open>x.dtype\<close> likewise.\<close>

fun ndim_t :: "vtype \<Rightarrow> nat option" where
  "ndim_t (GpuArrayType d n) = Some n"
| "ndim_t (TensorType d n) = Some n"
| "ndim_t (Scalar d) = Some 0"
| "ndim_t t = None"

fun dtype_t :: "vtype \<Rightarrow> string option" where
  "dtype_t (GpuArrayType d n) = Some d"
| "dtype_t (TensorType d n) = Some d"
| "dtype_t (Scalar d) = Some d"
| "dtype_t t = None"

definition ndim :: "var \<Rightarrow> nat option" where
  "ndim v = ndim_t (vtype_of v)"

definition dtype :: "var \<Rightarrow> string option" where
  "dtype v = dtype_t (vtype_of v)"

text \<open>Python's \<^verbatim>\<open>xs[i]\<close> on a list or tuple, for an index that is not negative.\<close>

definition index :: "'a list \<Rightarrow> nat \<Rightarrow> error + 'a" where
  "index xs i = (if i < length xs then Inr (xs ! i) else Inl IndexError)"


section \<open>Primitives of the surrounding framework\<close>

text \<open>
  \<^verbatim>\<open>dnn.py\<close> imports these from other modules. Each is written here as the graph node
  it builds, with the checks that matter to its callers in \<^verbatim>\<open>dnn.py\<close>.
\<close>

text \<open>Modelled from the spec: \<^verbatim>\<open>as_gpuarray_variable\<close> of \<^verbatim>\<open>basic_ops\<close> is missing. A GPU
  array is returned as it is, a host tensor is transferred, anything else is refused.\<close>

definition as_gpuarray_variable :: "var \<Rightarrow> error + var" where
  "as_gpuarray_variable x =
     (case vtype_of x of
        GpuArrayType d n \<Rightarrow> Inr x
      | TensorType d n \<Rightarrow> Inr (Out GpuFromHost [x] (GpuArrayType d n) [])
      | _ \<Rightarrow> Inl (TypeError ''cannot convert to a GPU array variable''))"

text \<open>Modelled from the spec: \<^verbatim>\<open>gpu_contiguous\<close> of \<^verbatim>\<open>basic_ops\<close> is missing
  (contiguity enforcement): a node over the GPU array, of the same type.\<close>

definition gpu_contiguous :: "var \<Rightarrow> error + var" where
  "gpu_contiguous x =
     bindE (as_gpuarray_variable x) (\<lambda>y. Inr (Out GpuContiguous [y] (vtype_of y) []))"

text \<open>Modelled from the spec: \<^verbatim>\<open>shape_i\<close> of \<^verbatim>\<open>theano.compile.ops\<close> and the attribute
  \<^verbatim>\<open>shape\<close> of a variable are missing (shape-scalar extraction): the symbolic value of
  one dimension, and the symbolic vector of all of them.\<close>

definition shape_i :: "var \<Rightarrow> nat \<Rightarrow> var" where
  "shape_i x i = Out (Shape_i i) [x] (TensorType ''int64'' 0) []"

definition shape :: "var \<Rightarrow> var" where
  "shape x = Out Shape [x] (TensorType ''int64'' 1) []"

text \<open>Modelled from the spec: \<^verbatim>\<open>GpuAllocEmpty\<close> of \<^verbatim>\<open>basic_ops\<close> is missing
  (empty-buffer allocation): \<^verbatim>\<open>GpuAllocEmpty(dtype)(*sh)\<close> is an uninitialised GPU array
  with one dimension for each argument.\<close>

definition GpuAllocEmpty_call :: "string \<Rightarrow> var list \<Rightarrow> var" where
  "GpuAllocEmpty_call d sh = Out (GpuAllocEmpty d) sh (GpuArrayType d (length sh)) []"


text \<open>Modelled from the spec: the method \<^verbatim>\<open>dimshuffle\<close> of a tensor variable is missing: a
  permutation of the dimensions, which must name each dimension of its argument once.\<close>

definition dimshuffle :: "var \<Rightarrow> nat list \<Rightarrow> error + var" where
  "dimshuffle x order =
     (case (dtype x, ndim x) of
        (Some d, Some n) \<Rightarrow>
          if length order = n \<and> distinct order \<and> list_all (\<lambda>i. i < n) order
          then Inr (Out (DimShuffle order) [x] (TensorType d n) [])
          else Inl (ValueError ''invalid dimshuffle pattern'')
      | _ \<Rightarrow> Inl AttributeError)"

text \<open>Modelled from the spec: the slice \<^verbatim>\<open>kerns[:, :, ::-1, ::-1]\<close> of a tensor variable is
  missing: the last two dimensions reversed.\<close>

definition flip_last2 :: "var \<Rightarrow> var" where
  "flip_last2 x = Out Subtensor_flip_last2 [x] (vtype_of x) []"




text \<open>Modelled from the spec: \<^verbatim>\<open>as_scalar\<close> of \<^verbatim>\<open>theano.scalar\<close> is missing: a scalar
  variable is returned as it is, a host tensor of rank 0 is converted, anything else is a
  type error.\<close>

definition as_scalar :: "var \<Rightarrow> error + var" where
  "as_scalar x =
     (case vtype_of x of
        Scalar d \<Rightarrow> Inr x
      | TensorType d n \<Rightarrow>
          if n = 0 then Inr (Out ScalarFromTensor [x] (Scalar d) [])
          else Inl (TypeError ''Variable type field must be a Scalar.'')
      | _ \<Rightarrow> Inl (TypeError ''Variable type field must be a Scalar.''))"

text \<open>Modelled from the spec: the method \<^verbatim>\<open>astype\<close> of a scalar variable is missing: a cast
  node of the new dtype.\<close>

definition astype :: "var \<Rightarrow> string \<Rightarrow> var" where
  "astype x d = Out (ScalarOp (Cast d)) [x] (Scalar d) []"

text \<open>The argument \<^verbatim>\<open>alpha\<close> or \<^verbatim>\<open>beta\<close> of a \<^verbatim>\<open>make_node\<close>: left out
  (\<^verbatim>\<open>None\<close>), a number, or a variable.\<close>

datatype pyarg = NoneArg | Number string data | Variable var

text \<open>Modelled from the spec: \<^verbatim>\<open>constant\<close> of \<^verbatim>\<open>theano.scalar\<close> is missing: a scalar
  constant; the dtype that \<^verbatim>\<open>constant\<close> chooses for a number is given with the number.\<close>

definition scalar_constant :: "string \<Rightarrow> data \<Rightarrow> var" where
  "scalar_constant d x = Constant (Scalar d) x"

text \<open>Modelled from the spec: the method \<^verbatim>\<open>clone\<close> of a constant is missing: a new
  constant of the same type and datum.\<close>

definition clone :: "var \<Rightarrow> var" where
  "clone x = x"

text \<open>A Python integer or a symbolic scalar: the static method \<^verbatim>\<open>get_out_shape\<close> is
  called with either.\<close>

datatype pyval = PyInt int | Sym var

text \<open>Modelled from the spec: the arithmetic operators of a tensor variable are missing.
  Arithmetic on two Python integers is Python's; with a symbolic operand it builds an
  elementwise node over both operands, a Python integer entering the graph as a constant.
  The integers of shape arithmetic are written with the dtype \<^verbatim>\<open>int64\<close> throughout.\<close>

fun as_tensor_variable :: "pyval \<Rightarrow> var" where
  "as_tensor_variable (PyInt n) = Constant (TensorType ''int64'' 0) (IntData n)"
| "as_tensor_variable (Sym v) = v"

definition sym_binop :: "scalar_op \<Rightarrow> pyval \<Rightarrow> pyval \<Rightarrow> pyval" where
  "sym_binop f a b =
     Sym (Out (Elemwise f) [as_tensor_variable a, as_tensor_variable b] (TensorType ''int64'' 0) [])"

fun py_add :: "pyval \<Rightarrow> pyval \<Rightarrow> pyval" where
  "py_add (PyInt x) (PyInt y) = PyInt (x + y)"
| "py_add a b = sym_binop Add a b"

fun py_sub :: "pyval \<Rightarrow> pyval \<Rightarrow> pyval" where
  "py_sub (PyInt x) (PyInt y) = PyInt (x - y)"
| "py_sub a b = sym_binop Sub a b"

fun py_mul :: "pyval \<Rightarrow> pyval \<Rightarrow> pyval" where
  "py_mul (PyInt x) (PyInt y) = PyInt (x * y)"
| "py_mul a b = sym_binop Mul a b"

text \<open>Python's \<^verbatim>\<open>//\<close> rounds towards minus infinity, as \<open>div\<close> on \<open>int\<close> does, and raises
  on a zero divisor.\<close>

fun py_floordiv :: "pyval \<Rightarrow> pyval \<Rightarrow> error + pyval" where
  "py_floordiv (PyInt x) (PyInt y) = (if y = 0 then Inl ZeroDivisionError else Inr (PyInt (x div y)))"
| "py_floordiv a b = Inr (sym_binop IntDiv a b)"

text \<open>A shape is a Python list of such values or a symbolic vector, indexed by a constant.
  Modelled from the spec: the indexing of a symbolic vector is missing: a node for the
  element, which is built whatever the length of the vector turns out to be.\<close>

datatype shp = PyList "pyval list" | SymVec var

fun shp_index :: "shp \<Rightarrow> nat \<Rightarrow> error + pyval" where
  "shp_index (PyList xs) i = index xs i"
| "shp_index (SymVec v) i = Inr (Sym (Out (Subtensor_index i) [v] (TensorType ''int64'' 0) []))"

text \<open>Reading a local variable that may not have been assigned.\<close>

definition local_var :: "string \<Rightarrow> 'a option \<Rightarrow> error + 'a" where
  "local_var name v = (case v of None \<Rightarrow> Inl (UnboundLocalError name) | Some x \<Rightarrow> Inr x)"


section \<open>The operators of \<^verbatim>\<open>dnn.py\<close>\<close>

subsection \<open>\<^verbatim>\<open>GpuDnnConv.get_out_shape\<close> (lines 441-490)\<close>

text \<open>
  The locals \<^verbatim>\<open>d\<close>, \<^verbatim>\<open>kd\<close>, \<^verbatim>\<open>sd\<close> and \<^verbatim>\<open>padd\<close> are assigned on some paths only.
  As in the source, \<^verbatim>\<open>kd\<close> is read from \<^verbatim>\<open>ishape[4]\<close>, the branch for
  \<^verbatim>\<open>'full'\<close> assigns \<^verbatim>\<open>padd\<close> when \<^verbatim>\<open>nd > 4\<close>, and the last entry is
  \<^verbatim>\<open>d + 2 * padd - kd // sd + 1\<close> with Python's precedence.
\<close>

definition get_out_shape :: "shp \<Rightarrow> shp \<Rightarrow> bmode \<Rightarrow> int list \<Rightarrow> error + pyval list" where
  "get_out_shape ishape kshape border_mode subsample =
     bindE (shp_index ishape 0) (\<lambda>b.
     bindE (shp_index ishape 2) (\<lambda>h.
     bindE (shp_index ishape 3) (\<lambda>w.
     bindE (shp_index kshape 0) (\<lambda>nb.
     bindE (shp_index kshape 2) (\<lambda>kh.
     bindE (shp_index kshape 3) (\<lambda>kw.
     let nd = length subsample in
     bindE (if nd > 2 then bindE (shp_index ishape 4) (\<lambda>x. Inr (Some x)) else Inr None) (\<lambda>d.
     bindE (if nd > 2 then bindE (shp_index ishape 4) (\<lambda>x. Inr (Some x)) else Inr None) (\<lambda>kd.
     bindE (index subsample 0) (\<lambda>sh.
     bindE (index subsample 1) (\<lambda>sw.
     bindE (if nd > 2 then bindE (index subsample 2) (\<lambda>x. Inr (Some x)) else Inr None) (\<lambda>sd.
     bindE
       (if border_mode = BM_str ''full'' then
          bindE (if nd > 4 then bindE (local_var ''kd'' kd) (\<lambda>k. Inr (Some (py_sub k (PyInt 1))))
                 else Inr None) (\<lambda>padd.
          Inr (py_sub kh (PyInt 1), py_sub kw (PyInt 1), padd))
        else
          (case border_mode of
             BM_tuple t \<Rightarrow>
               bindE (index t 0) (\<lambda>padh.
               bindE (index t 1) (\<lambda>padw.
               bindE (if nd > 2 then bindE (index t 2) (\<lambda>x. Inr (Some (PyInt x))) else Inr None)
                 (\<lambda>padd.
               Inr (PyInt padh, PyInt padw, padd))))
           | _ \<Rightarrow>
               if border_mode = BM_str ''valid'' then Inr (PyInt 0, PyInt 0, Some (PyInt 0))
               else Inl AssertionError))
       (\<lambda>(padh, padw, padd).
     bindE (py_floordiv (py_sub (py_add h (py_mul (PyInt 2) padh)) kh) (PyInt sh)) (\<lambda>qh.
     bindE (py_floordiv (py_sub (py_add w (py_mul (PyInt 2) padw)) kw) (PyInt sw)) (\<lambda>qw.
     let res = [b, nb, py_add qh (PyInt 1), py_add qw (PyInt 1)] in
     if nd > 2 then
       bindE (local_var ''d'' d) (\<lambda>d.
       bindE (local_var ''padd'' padd) (\<lambda>padd.
       bindE (local_var ''kd'' kd) (\<lambda>kd.
       bindE (local_var ''sd'' sd) (\<lambda>sd.
       bindE (py_floordiv kd (PyInt sd)) (\<lambda>q.
       Inr (res @ [py_add (py_sub (py_add d (py_mul (PyInt 2) padd)) q) (PyInt 1)]))))))
     else Inr res))))))))))))))"

text \<open>\<^verbatim>\<open>infer_shape\<close> of the three convolution operators (lines 492, 607, 722): the
  shape of the third input.\<close>

definition conv_infer_shape :: "'a list \<Rightarrow> error + 'a list" where
  "conv_infer_shape shapes = bindE (index shapes 2) (\<lambda>x. Inr [x])"


subsection \<open>\<^verbatim>\<open>GpuDnnConvDesc\<close> (lines 229-255)\<close>

text \<open>The message of line 240, without the value of \<^verbatim>\<open>border_mode\<close> that the source
  formats into it.\<close>

definition msg_border_mode :: string where
  "msg_border_mode = ''invalid border_mode, which must be either valid, full, an integer or a pair of integers''"

text \<open>
  \<^verbatim>\<open>__init__\<close>: an integer \<^verbatim>\<open>border_mode\<close> becomes a tuple as long as \<^verbatim>\<open>subsample\<close>;
  a tuple must be as long as \<^verbatim>\<open>subsample\<close> and have a minimum of at least 0 (the minimum
  of the empty tuple is a \<^verbatim>\<open>ValueError\<close> of Python); a string must be \<^verbatim>\<open>'valid'\<close> or
  \<^verbatim>\<open>'full'\<close>. The constructor does not read the version of the backend.
\<close>

definition GpuDnnConvDesc_init :: "bmode \<Rightarrow> int list \<Rightarrow> string \<Rightarrow> error + op" where
  "GpuDnnConvDesc_init border_mode subsample conv_mode =
     (let bm1 = (case border_mode of
                   BM_int n \<Rightarrow> BM_tuple (replicate (length subsample) n)
                 | _ \<Rightarrow> border_mode)
      in
      bindE (case bm1 of
               BM_tuple t \<Rightarrow> if length t = length subsample then Inr bm1 else Inl AssertionError
             | _ \<Rightarrow> Inr bm1) (\<lambda>bm2.
      bindE (case bm2 of
               BM_tuple t \<Rightarrow>
                 if t = [] then Inl (ValueError ''min() arg is an empty sequence'')
                 else Inr (min_list t \<ge> 0)
             | _ \<Rightarrow> Inr False) (\<lambda>tuple_ok.
      if \<not> (tuple_ok \<or> bm2 = BM_str ''valid'' \<or> bm2 = BM_str ''full'') then
        Inl (ValueError msg_border_mode)
      else if \<not> (length subsample = 2 \<or> length subsample = 3) then Inl AssertionError
      else if \<not> (conv_mode = ''conv'' \<or> conv_mode = ''cross'') then Inl AssertionError
      else Inr (GpuDnnConvDesc bm2 subsample conv_mode))))"

definition conv_desc_ctype :: string where
  "conv_desc_ctype = ''cudnnConvolutionDescriptor_t''"

text \<open>\<^verbatim>\<open>make_node\<close>: the argument is a vector of \<^verbatim>\<open>int64\<close>; the output is a C handle.\<close>

definition GpuDnnConvDesc_make_node :: "op \<Rightarrow> var \<Rightarrow> error + var" where
  "GpuDnnConvDesc_make_node self kern_shape =
     (case (ndim kern_shape, dtype kern_shape) of
        (Some n, Some d) \<Rightarrow>
          if n \<noteq> 1 \<or> d \<noteq> ''int64'' then Inl (TypeError ''kern must be 1D shape tensor'')
          else Inr (Out self [kern_shape] (CDataType conv_desc_ctype) [])
      | _ \<Rightarrow> Inl AttributeError)"

subsection \<open>\<^verbatim>\<open>ensure_dt\<close> (lines 295-311)\<close>

text \<open>The scalar constants \<^verbatim>\<open>_zero\<close> and \<^verbatim>\<open>_one\<close> of lines 296-297.\<close>

definition zero_const :: var where
  "zero_const = scalar_constant ''float64'' (FloatData 0)"

definition one_const :: var where
  "one_const = scalar_constant ''float64'' (FloatData 1)"

definition is_Scalar :: "vtype \<Rightarrow> bool" where
  "is_Scalar t = (case t of Scalar d \<Rightarrow> True | _ \<Rightarrow> False)"

definition ensure_dt :: "pyarg \<Rightarrow> var \<Rightarrow> string \<Rightarrow> string \<Rightarrow> error + var" where
  "ensure_dt val dflt name dt =
     (let v1 = (case val of
                  NoneArg \<Rightarrow> clone dflt
                | Number d x \<Rightarrow> scalar_constant d x
                | Variable v \<Rightarrow> v)
      in
      bindE (if ndim v1 = Some 0 then as_scalar v1 else Inr v1) (\<lambda>v2.
      if \<not> is_Scalar (vtype_of v2) then Inl (TypeError (name @ '': expected a scalar value''))
      else if \<not> (dtype v2 = Some dt) then Inr (astype v2 dt)
      else Inr v2))"

subsection \<open>The three convolution operators\<close>

definition fwd_algos :: "string list" where
  "fwd_algos = [''none'', ''small'', ''large'', ''fft'', ''guess_once'',
                ''guess_on_shape_change'', ''time_once'', ''time_on_shape_change'']"

definition bwd_algos :: "string list" where
  "bwd_algos = [''none'', ''deterministic'', ''fft'', ''guess_once'',
                ''guess_on_shape_change'', ''time_once'', ''time_on_shape_change'']"

text \<open>
  \<^verbatim>\<open>GpuDnnConv.__init__\<close> (lines 331-355) reads the configuration and the version of the
  backend; \<^verbatim>\<open>GpuDnnConvGradW.__init__\<close> (lines 511-522) and
  \<^verbatim>\<open>GpuDnnConvGradI.__init__\<close> (lines 626-637) read the configuration only.
\<close>

definition GpuDnnConv_init :: "gate \<Rightarrow> env \<Rightarrow> string option \<Rightarrow> bool \<Rightarrow> (error + op) \<times> gate" where
  "GpuDnnConv_init s e algo inplace =
     (let algo1 = (case algo of None \<Rightarrow> algo_fwd e | Some a \<Rightarrow> a) in
      bindS (version s e) (\<lambda>v s1.
        if v < 3000 \<and> algo1 = ''fft'' then
          (Inl (RuntimeError ''CuDNN FFT convolution requires CuDNN v3''), s1)
        else if v < 3000 \<and> algo1 \<in> set [''guess_once'', ''guess_on_shape_change''] then
          (Inl (RuntimeError ''CuDNN selection of convolution implementation based on heuristics requires CuDNN v3''), s1)
        else if v < 3000 \<and> algo1 \<in> set [''time_once'', ''time_on_shape_change''] then
          (Inl (RuntimeError ''CuDNN convolution timing requires CuDNN v3''), s1)
        else if algo1 \<notin> set fwd_algos then (Inl AssertionError, s1)
        else (Inr (GpuDnnConv algo1 inplace), s1)))"

definition GpuDnnConvGradW_init :: "env \<Rightarrow> bool \<Rightarrow> string option \<Rightarrow> error + op" where
  "GpuDnnConvGradW_init e inplace algo =
     (let algo1 = (case algo of None \<Rightarrow> algo_bwd e | Some a \<Rightarrow> a) in
      if algo1 \<notin> set bwd_algos then Inl AssertionError
      else Inr (GpuDnnConvGradW algo1 inplace))"

definition GpuDnnConvGradI_init :: "env \<Rightarrow> bool \<Rightarrow> string option \<Rightarrow> error + op" where
  "GpuDnnConvGradI_init e inplace algo =
     (let algo1 = (case algo of None \<Rightarrow> algo_bwd e | Some a \<Rightarrow> a) in
      if algo1 \<notin> set bwd_algos then Inl AssertionError
      else Inr (GpuDnnConvGradI algo1 inplace))"

text \<open>The attributes \<^verbatim>\<open>algo\<close> and \<^verbatim>\<open>inplace\<close> of an operator, and the \<^verbatim>\<open>destroy_map\<close>
  that the three constructors set when \<^verbatim>\<open>inplace\<close> holds: output 0 overwrites input 2.\<close>

fun op_algo :: "op \<Rightarrow> string option" where
  "op_algo (GpuDnnConv a i) = Some a"
| "op_algo (GpuDnnConvGradW a i) = Some a"
| "op_algo (GpuDnnConvGradI a i) = Some a"
| "op_algo (GpuDnnSoftmax m a) = Some a"
| "op_algo (GpuDnnSoftmaxGrad m a) = Some a"
| "op_algo f = None"

fun op_inplace :: "op \<Rightarrow> bool option" where
  "op_inplace (GpuDnnConv a i) = Some i"
| "op_inplace (GpuDnnConvGradW a i) = Some i"
| "op_inplace (GpuDnnConvGradI a i) = Some i"
| "op_inplace f = None"

definition destroy_map :: "op \<Rightarrow> (nat \<times> nat list) list" where
  "destroy_map f = (if op_inplace f = Some True then [(0, [2])] else [])"

text \<open>
  \<^verbatim>\<open>make_node\<close> of the three operators (lines 393-421, 577-605, 692-720) differ in the
  names and messages and in the algorithms they refuse for a rank of 5; \<open>self\<close> is the
  operator, \<open>n1\<close> and \<open>n2\<close> the names of the first two arguments, \<open>msg_out\<close> the message
  for the third, \<open>bad5\<close> the algorithms refused for rank 5 and \<open>err5\<close> the exception then.
\<close>

definition conv_make_node ::
  "op \<Rightarrow> string \<Rightarrow> string \<Rightarrow> string \<Rightarrow> string list \<Rightarrow> error
     \<Rightarrow> var \<Rightarrow> var \<Rightarrow> var \<Rightarrow> var \<Rightarrow> pyarg \<Rightarrow> pyarg \<Rightarrow> error + var" where
  "conv_make_node self n1 n2 msg_out bad5 err5 a b output desc alpha beta =
     bindE (as_gpuarray_variable a) (\<lambda>a.
     bindE (as_gpuarray_variable b) (\<lambda>b.
     bindE (as_gpuarray_variable output) (\<lambda>output.
     if \<not> (ndim a = Some 4 \<or> ndim a = Some 5) then
       Inl (TypeError (n1 @ '' must be 4D or 5D tensor''))
     else if \<not> (ndim b = Some 4 \<or> ndim b = Some 5) then
       Inl (TypeError (n2 @ '' must be 4D or 5D tensor''))
     else if \<not> (ndim output = Some 4 \<or> ndim output = Some 5) then
       Inl (TypeError msg_out)
     else if ndim a \<noteq> ndim b \<or> ndim a \<noteq> ndim output then
       Inl (TypeError (''The number of dimensions of '' @ n1 @ '', '' @ n2 @ '' and output must match''))
     else if ndim a = Some 5 \<and> (case op_algo self of Some al \<Rightarrow> al \<in> set bad5 | None \<Rightarrow> False) then
       Inl err5
     else if vtype_of desc \<noteq> CDataType conv_desc_ctype then
       Inl (TypeError ''desc must be cudnnConvolutionDescriptor_t'')
     else
       (case dtype a of
          None \<Rightarrow> Inl AttributeError
        | Some dt \<Rightarrow>
            bindE (ensure_dt alpha one_const ''alpha'' dt) (\<lambda>alpha.
            bindE (ensure_dt beta zero_const ''beta'' dt) (\<lambda>beta.
            Inr (Out self [a, b, output, desc, alpha, beta] (vtype_of output) [])))))))"

definition GpuDnnConv_make_node ::
  "op \<Rightarrow> var \<Rightarrow> var \<Rightarrow> var \<Rightarrow> var \<Rightarrow> pyarg \<Rightarrow> pyarg \<Rightarrow> error + var" where
  "GpuDnnConv_make_node self img kern output desc alpha beta =
     conv_make_node self ''img'' ''kern'' ''output must be a 4D or 5D tensor'' [''fft'']
       (ValueError ''convolution algo fft can't be used for 3d convolutions'')
       img kern output desc alpha beta"

definition GpuDnnConvGradW_make_node ::
  "op \<Rightarrow> var \<Rightarrow> var \<Rightarrow> var \<Rightarrow> var \<Rightarrow> pyarg \<Rightarrow> pyarg \<Rightarrow> error + var" where
  "GpuDnnConvGradW_make_node self img topgrad output desc alpha beta =
     conv_make_node self ''img'' ''topgrad'' ''output must be 4D or 5D tensor''
       [''fft'', ''deterministic'']
       (ValueError ''convolution algo %s can't be used for 3d convolutions'')
       img topgrad output desc alpha beta"

definition GpuDnnConvGradI_make_node ::
  "op \<Rightarrow> var \<Rightarrow> var \<Rightarrow> var \<Rightarrow> var \<Rightarrow> pyarg \<Rightarrow> pyarg \<Rightarrow> error + var" where
  "GpuDnnConvGradI_make_node self kern topgrad output desc alpha beta =
     conv_make_node self ''kern'' ''topgrad'' ''output must be 4D or 5D tensor''
       [''fft'', ''deterministic'']
       (ValueError ''convolution algo %s can't be used for 3d convolutions'')
       kern topgrad output desc alpha beta"



text \<open>Calling an operator on a list of arguments, \<^verbatim>\<open>op(*inputs)\<close>: the last two
  parameters of \<^verbatim>\<open>make_node\<close> may be left out.\<close>

definition conv_call ::
  "(var \<Rightarrow> var \<Rightarrow> var \<Rightarrow> var \<Rightarrow> pyarg \<Rightarrow> pyarg \<Rightarrow> error + var) \<Rightarrow> var list \<Rightarrow> error + var" where
  "conv_call make_node inputs =
     (case inputs of
        [a, b, c, d] \<Rightarrow> make_node a b c d NoneArg NoneArg
      | [a, b, c, d, al] \<Rightarrow> make_node a b c d (Variable al) NoneArg
      | [a, b, c, d, al, be] \<Rightarrow> make_node a b c d (Variable al) (Variable be)
      | _ \<Rightarrow> Inl (TypeError ''make_node() takes from 5 to 7 positional arguments''))"

subsection \<open>\<^verbatim>\<open>dnn_conv\<close> (lines 726-822)\<close>

text \<open>The first special case (lines 778-791): the weight gradient of a valid convolution.\<close>

definition dnn_conv_bprop_weights :: "env \<Rightarrow> var \<Rightarrow> var \<Rightarrow> string \<Rightarrow> error + var" where
  "dnn_conv_bprop_weights e img kerns conv_mode =
     bindE (dimshuffle img [1, 0, 2, 3]) (\<lambda>img_t.
     bindE (gpu_contiguous img_t) (\<lambda>img.
     let kerns = (if conv_mode = ''conv'' then flip_last2 kerns else kerns) in
     bindE (dimshuffle kerns [1, 0, 2, 3]) (\<lambda>kerns_t.
     bindE (gpu_contiguous kerns_t) (\<lambda>kerns.
     let shape2 = py_add (py_sub (Sym (shape_i img 2)) (Sym (shape_i kerns 2))) (PyInt 1);
         shape3 = py_add (py_sub (Sym (shape_i img 3)) (Sym (shape_i kerns 3))) (PyInt 1)
     in
     (case dtype img of
        None \<Rightarrow> Inl AttributeError
      | Some dt \<Rightarrow>
          let out = GpuAllocEmpty_call dt
                      [shape_i kerns 1, shape_i img 1,
                       as_tensor_variable shape2, as_tensor_variable shape3]
          in
          bindE (GpuDnnConvDesc_init (BM_str ''valid'') [1, 1] ''cross'') (\<lambda>dop.
          bindE (GpuDnnConvDesc_make_node dop (shape out)) (\<lambda>desc.
          bindE (GpuDnnConvGradW_init e False None) (\<lambda>gw.
          bindE (GpuDnnConvGradW_make_node gw img kerns out desc NoneArg NoneArg) (\<lambda>conv.
          bindE (dimshuffle conv [1, 0, 2, 3]) (\<lambda>conv_t.
          as_gpuarray_variable conv_t))))))))))"

text \<open>The second special case (lines 798-808): the full convolution as the gradient with
  respect to the inputs of a valid one.\<close>

definition dnn_conv_full :: "env \<Rightarrow> var \<Rightarrow> var \<Rightarrow> string \<Rightarrow> error + var" where
  "dnn_conv_full e img kerns conv_mode =
     bindE (gpu_contiguous img) (\<lambda>img.
     bindE (dimshuffle kerns [1, 0, 2, 3]) (\<lambda>kerns_t.
     bindE (gpu_contiguous kerns_t) (\<lambda>kerns.
     let conv_mode = (if conv_mode = ''conv'' then ''cross'' else ''conv'');
         shape2 = py_sub (py_add (Sym (shape_i img 2)) (Sym (shape_i kerns 2))) (PyInt 1);
         shape3 = py_sub (py_add (Sym (shape_i img 3)) (Sym (shape_i kerns 3))) (PyInt 1)
     in
     (case dtype img of
        None \<Rightarrow> Inl AttributeError
      | Some dt \<Rightarrow>
          let out = GpuAllocEmpty_call dt
                      [shape_i img 0, shape_i kerns 1,
                       as_tensor_variable shape2, as_tensor_variable shape3]
          in
          bindE (GpuDnnConvDesc_init (BM_str ''valid'') [1, 1] conv_mode) (\<lambda>dop.
          bindE (GpuDnnConvDesc_make_node dop (shape kerns)) (\<lambda>desc.
          bindE (GpuDnnConvGradI_init e False None) (\<lambda>gi.
          GpuDnnConvGradI_make_node gi kerns img out desc NoneArg NoneArg)))))))"

text \<open>The standard case (lines 813-822): the forward operator with the padding asked for.\<close>

definition dnn_conv_standard ::
  "gate \<Rightarrow> env \<Rightarrow> var \<Rightarrow> var \<Rightarrow> bmode \<Rightarrow> int list \<Rightarrow> string \<Rightarrow> string option
     \<Rightarrow> (error + var) \<times> gate" where
  "dnn_conv_standard s e img kerns border_mode subsample conv_mode algo =
     (case
        bindE (gpu_contiguous img) (\<lambda>img.
        bindE (gpu_contiguous kerns) (\<lambda>kerns.
        bindE (GpuDnnConvDesc_init border_mode subsample conv_mode) (\<lambda>desc_op.
        bindE (GpuDnnConvDesc_make_node desc_op (shape kerns)) (\<lambda>desc.
        (case desc_op of
           GpuDnnConvDesc bm sub cm \<Rightarrow>
             bindE (get_out_shape (SymVec (shape img)) (SymVec (shape kerns)) bm sub) (\<lambda>out_shp.
             (case dtype img of
                None \<Rightarrow> Inl AttributeError
              | Some dt \<Rightarrow>
                  Inr (img, kerns, GpuAllocEmpty_call dt (map as_tensor_variable out_shp), desc)))
         | _ \<Rightarrow> Inl AttributeError)))))
      of
        Inl x \<Rightarrow> (Inl x, s)
      | Inr (img, kerns, out, desc) \<Rightarrow>
          bindS (GpuDnnConv_init s e algo False) (\<lambda>conv s1.
            (GpuDnnConv_make_node conv img kerns out desc NoneArg NoneArg, s1)))"

definition dnn_conv ::
  "gate \<Rightarrow> env \<Rightarrow> var \<Rightarrow> var \<Rightarrow> bmode \<Rightarrow> int list \<Rightarrow> string \<Rightarrow> string option
     \<Rightarrow> string option \<Rightarrow> string option \<Rightarrow> (error + var) \<times> gate" where
  "dnn_conv s e img kerns border_mode subsample conv_mode direction_hint workmem algo =
     (if workmem \<noteq> None \<and> algo \<noteq> None then
        (Inl (ValueError ''You can't use both algo and workmem''), s)
      else
        let algo = (if workmem \<noteq> None then workmem else algo) in
        if border_mode = BM_str ''valid'' \<and> subsample = [1, 1]
           \<and> direction_hint = Some ''bprop weights'' then
          (dnn_conv_bprop_weights e img kerns conv_mode, s)
        else if border_mode = BM_str ''full'' \<and> subsample = [1, 1]
                \<and> direction_hint \<noteq> Some ''forward!'' then
          (dnn_conv_full e img kerns conv_mode, s)
        else dnn_conv_standard s e img kerns border_mode subsample conv_mode algo)"

subsection \<open>Pooling (lines 862-878, 1015-1040)\<close>

definition pool_desc_ctype :: string where
  "pool_desc_ctype = ''cudnnPoolingDescriptor_t''"

text \<open>\<^verbatim>\<open>GpuDnnPoolDesc.__init__\<close>: the version of the backend is read only when there are
  three dimensions.\<close>

definition GpuDnnPoolDesc_init ::
  "gate \<Rightarrow> env \<Rightarrow> int list \<Rightarrow> int list \<Rightarrow> string \<Rightarrow> int list \<Rightarrow> (error + op) \<times> gate" where
  "GpuDnnPoolDesc_init s e ws stride mode pad =
     (let mode = (if mode = ''average'' then ''average_inc_pad'' else mode) in
      if mode \<notin> set [''max'', ''average_inc_pad'', ''average_exc_pad''] then (Inl AssertionError, s)
      else if \<not> (length ws = length stride \<and> length stride = length pad) then
        (Inl AssertionError, s)
      else if \<not> (length ws = 2 \<or> length ws = 3) then (Inl AssertionError, s)
      else if length ws = 3 then
        bindS (version s e) (\<lambda>v s1.
          if v < 3000 then (Inl (RuntimeError ''CuDNN 3d pooling requires v3''), s1)
          else (Inr (GpuDnnPoolDesc ws stride mode pad), s1))
      else (Inr (GpuDnnPoolDesc ws stride mode pad), s))"

definition GpuDnnPoolDesc_make_node :: "op \<Rightarrow> error + var" where
  "GpuDnnPoolDesc_make_node self = Inr (Out self [] (CDataType pool_desc_ctype) [])"

definition get_ndim :: "op \<Rightarrow> error + nat" where
  "get_ndim f = (case f of GpuDnnPoolDesc ws stride mode pad \<Rightarrow> Inr (length ws)
                 | _ \<Rightarrow> Inl AttributeError)"

definition GpuDnnPoolGrad_make_node :: "var \<Rightarrow> var \<Rightarrow> var \<Rightarrow> var \<Rightarrow> error + var" where
  "GpuDnnPoolGrad_make_node inp out out_grad desc =
     bindE (as_gpuarray_variable inp) (\<lambda>inp.
     bindE (as_gpuarray_variable out_grad) (\<lambda>out_grad.
     bindE (as_gpuarray_variable out) (\<lambda>out.
     bindE (case owner desc of
              None \<Rightarrow> Inr ()
            | Some n \<Rightarrow>
                bindE (get_ndim (node_op n)) (\<lambda>k.
                let nd = k + 2 in
                if ndim inp \<noteq> Some nd then Inl (TypeError ''inp must be nD tensor'')
                else if ndim out_grad \<noteq> Some nd then Inl (TypeError ''out_grad must be nD tensor'')
                else if ndim out \<noteq> Some nd then Inl (TypeError ''out must be nD tensor'')
                else Inr ())) (\<lambda>u.
     if vtype_of desc \<noteq> CDataType pool_desc_ctype then
       Inl (TypeError ''desc must be cudnnPoolingDescriptor_t'')
     else Inr (Out GpuDnnPoolGrad [inp, out, out_grad, desc] (vtype_of inp) [])))))"

subsection \<open>Softmax (lines 1100-1109, 1150-1153)\<close>

definition GpuDnnSoftmax_init :: "gate \<Rightarrow> env \<Rightarrow> string \<Rightarrow> string \<Rightarrow> (error + op) \<times> gate" where
  "GpuDnnSoftmax_init s e algo mode =
     (if algo \<notin> set [''fast'', ''accurate'', ''log''] then (Inl AssertionError, s)
      else
        (case (if algo = ''log'' then
                 bindS (version s e) (\<lambda>v s1.
                   if v < 3000 then (Inl (RuntimeError ''Need CuDNN v3 for log-softmax''), s1)
                   else (Inr (), s1))
               else (Inr (), s))
         of
           (Inl x, s1) \<Rightarrow> (Inl x, s1)
         | (Inr u, s1) \<Rightarrow>
             if mode \<notin> set [''instance'', ''channel''] then (Inl AssertionError, s1)
             else (Inr (GpuDnnSoftmax mode algo), s1)))"

definition GpuDnnSoftmax_make_node :: "op \<Rightarrow> var \<Rightarrow> error + var" where
  "GpuDnnSoftmax_make_node self x =
     bindE (as_gpuarray_variable x) (\<lambda>x.
     if ndim x \<noteq> Some 4 then Inl AssertionError
     else Inr (Out self [x] (vtype_of x) []))"

subsection \<open>The rewrite rules\<close>

text \<open>
  A local rewrite rule is given a node of the function graph; it returns \<open>None\<close> when it
  does not apply and the replacement otherwise.

  The three in-place rules (lines 1245-1281). The buffer is the third input. When it is the
  output of a \<^verbatim>\<open>GpuAllocEmpty\<close> and has more than one consumer, a new allocation with the
  same dtype and the same inputs takes its place; in every other case the buffer stays.
\<close>

definition inplace_inputs :: "var list \<Rightarrow> error + var list" where
  "inplace_inputs inputs =
     bindE (index inputs 2) (\<lambda>dest.
     (case owner dest of
        Some (Apply (GpuAllocEmpty d) alloc_inputs) \<Rightarrow>
          if length (clients dest) > 1
          then Inr (inputs[2 := GpuAllocEmpty_call d alloc_inputs])
          else Inr inputs
      | _ \<Rightarrow> Inr inputs))"

definition local_dnn_conv_inplace :: "gate \<Rightarrow> env \<Rightarrow> node \<Rightarrow> (error + var list option) \<times> gate" where
  "local_dnn_conv_inplace s e n =
     (case node_op n of
        GpuDnnConv algo inplace \<Rightarrow>
          if inplace then (Inr None, s)
          else
            (case inplace_inputs (node_inputs n) of
               Inl x \<Rightarrow> (Inl x, s)
             | Inr inputs \<Rightarrow>
                 bindS (GpuDnnConv_init s e (Some algo) True) (\<lambda>conv s1.
                   (bindE (conv_call (GpuDnnConv_make_node conv) inputs) (\<lambda>v. Inr (Some [v])),
                    s1)))
      | _ \<Rightarrow> (Inr None, s))"

definition local_dnn_convgw_inplace :: "env \<Rightarrow> node \<Rightarrow> error + var list option" where
  "local_dnn_convgw_inplace e n =
     (case node_op n of
        GpuDnnConvGradW algo inplace \<Rightarrow>
          if inplace then Inr None
          else
            bindE (inplace_inputs (node_inputs n)) (\<lambda>inputs.
            bindE (GpuDnnConvGradW_init e True (Some algo)) (\<lambda>gw.
            bindE (conv_call (GpuDnnConvGradW_make_node gw) inputs) (\<lambda>v. Inr (Some [v]))))
      | _ \<Rightarrow> Inr None)"

definition local_dnn_convgi_inplace :: "env \<Rightarrow> node \<Rightarrow> error + var list option" where
  "local_dnn_convgi_inplace e n =
     (case node_op n of
        GpuDnnConvGradI algo inplace \<Rightarrow>
          if inplace then Inr None
          else
            bindE (inplace_inputs (node_inputs n)) (\<lambda>inputs.
            bindE (GpuDnnConvGradI_init e True (Some algo)) (\<lambda>gi.
            bindE (conv_call (GpuDnnConvGradI_make_node gi) inputs) (\<lambda>v. Inr (Some [v]))))
      | _ \<Rightarrow> Inr None)"

text \<open>
  \<^verbatim>\<open>local_avg_pool_dnn_grad_stride\<close> (lines 1368-1385), the function that the decorator
  \<^verbatim>\<open>op_lifter\<close> wraps. A node whose operator is not an \<^verbatim>\<open>AveragePoolGrad\<close> has no
  attribute \<^verbatim>\<open>ignore_border\<close>.
\<close>

definition local_avg_pool_dnn_grad_stride ::
  "gate \<Rightarrow> env \<Rightarrow> node \<Rightarrow> (error + var option) \<times> gate" where
  "local_avg_pool_dnn_grad_stride s e n =
     bindS (dnn_available s e) (\<lambda>a s1.
       if a \<noteq> Some True then (Inr None, s1)
       else
         (case node_op n of
            AveragePoolGrad ds ignore_border st pad mode \<Rightarrow>
              if \<not> ignore_border then (Inr None, s1)
              else
                (case node_inputs n of
                   [inp, out_grad] \<Rightarrow>
                     (case gpu_contiguous out_grad of
                        Inl x \<Rightarrow> (Inl x, s1)
                      | Inr cg \<Rightarrow>
                          bindS (GpuDnnPoolDesc_init s1 e ds st mode pad) (\<lambda>dop s2.
                            (bindE (GpuDnnPoolDesc_make_node dop) (\<lambda>desc.
                             bindE (gpu_contiguous inp) (\<lambda>ci.
                             bindE (GpuDnnPoolGrad_make_node ci cg cg desc) (\<lambda>v.
                             Inr (Some v)))), s2)))
                 | _ \<Rightarrow> (Inl (ValueError ''unpack''), s1))
          | _ \<Rightarrow> (Inl AttributeError, s1)))"

text \<open>\<^verbatim>\<open>local_log_softmax_dnn\<close> (lines 1403-1414).\<close>

definition local_log_softmax_dnn :: "gate \<Rightarrow> env \<Rightarrow> node \<Rightarrow> (error + var list option) \<times> gate" where
  "local_log_softmax_dnn s e n =
     bindS (dnn_available s e) (\<lambda>a s1.
       if a \<noteq> Some True then (Inr None, s1)
       else
         bindS (version s1 e) (\<lambda>v s2.
           if v < 3000 then (Inr None, s2)
           else
             (case node_op n of
                GpuElemwise sop \<Rightarrow>
                  if sop \<noteq> Log then (Inr None, s2)
                  else
                    (case index (node_inputs n) 0 of
                       Inl x \<Rightarrow> (Inl x, s2)
                     | Inr sm \<Rightarrow>
                         (case owner sm of
                            Some (Apply (GpuDnnSoftmax mode algo) sm_inputs) \<Rightarrow>
                              if length (clients sm) = 1 then
                                bindS (GpuDnnSoftmax_init s2 e ''log'' mode) (\<lambda>new_softmax s3.
                                  (bindE (index sm_inputs 0) (\<lambda>x.
                                   bindE (GpuDnnSoftmax_make_node new_softmax x) (\<lambda>r.
                                   Inr (Some [r]))), s3))
                              else (Inr None, s2)
                          | _ \<Rightarrow> (Inr None, s2)))
              | _ \<Rightarrow> (Inr None, s2))))"

subsection \<open>Shapes of the values of a graph\<close>

text \<open>
  Modelled from the spec: the shape inference of the framework's own operators is missing.
  Given the shapes of the named graph inputs, the shape of a GPU array and the value of a
  symbolic integer: \<^verbatim>\<open>GpuContiguous\<close> and \<^verbatim>\<open>GpuFromHost\<close> keep the shape,
  \<^verbatim>\<open>DimShuffle\<close> permutes it, \<^verbatim>\<open>GpuAllocEmpty\<close> has the shape its arguments give,
  \<^verbatim>\<open>Shape_i\<close> reads one dimension, and the three convolution operators have the shape
  that their \<^verbatim>\<open>infer_shape\<close> returns.
\<close>

definition shape_rule :: "op \<Rightarrow> int list option list \<Rightarrow> int option list \<Rightarrow> int list option" where
  "shape_rule f shapes ints =
     (case f of
        GpuContiguous \<Rightarrow> (case shapes of [x] \<Rightarrow> x | _ \<Rightarrow> None)
      | GpuFromHost \<Rightarrow> (case shapes of [x] \<Rightarrow> x | _ \<Rightarrow> None)
      | DimShuffle order \<Rightarrow>
          (case shapes of
             [Some sh] \<Rightarrow> if list_all (\<lambda>i. i < length sh) order
                           then Some (map (\<lambda>i. sh ! i) order) else None
           | _ \<Rightarrow> None)
      | GpuAllocEmpty d \<Rightarrow> (if list_all (\<lambda>x. x \<noteq> None) ints then Some (map the ints) else None)
      | GpuDnnConv a i \<Rightarrow> (case conv_infer_shape shapes of Inr [x] \<Rightarrow> x | _ \<Rightarrow> None)
      | GpuDnnConvGradW a i \<Rightarrow> (case conv_infer_shape shapes of Inr [x] \<Rightarrow> x | _ \<Rightarrow> None)
      | GpuDnnConvGradI a i \<Rightarrow> (case conv_infer_shape shapes of Inr [x] \<Rightarrow> x | _ \<Rightarrow> None)
      | _ \<Rightarrow> None)"

definition int_rule :: "op \<Rightarrow> int list option list \<Rightarrow> int option list \<Rightarrow> int option" where
  "int_rule f shapes ints =
     (case f of
        Shape_i i \<Rightarrow>
          (case shapes of [Some sh] \<Rightarrow> if i < length sh then Some (sh ! i) else None | _ \<Rightarrow> None)
      | Elemwise sop \<Rightarrow>
          (case ints of
             [Some a, Some b] \<Rightarrow>
               (case sop of Add \<Rightarrow> Some (a + b) | Sub \<Rightarrow> Some (a - b) | Mul \<Rightarrow> Some (a * b)
                | IntDiv \<Rightarrow> (if b = 0 then None else Some (a div b)) | _ \<Rightarrow> None)
           | _ \<Rightarrow> None)
      | _ \<Rightarrow> None)"

fun shape_value :: "(string \<Rightarrow> int list option) \<Rightarrow> var \<Rightarrow> int list option"
  and int_value :: "(string \<Rightarrow> int list option) \<Rightarrow> var \<Rightarrow> int option" where
  "shape_value r (Var n t c) = (case n of None \<Rightarrow> None | Some x \<Rightarrow> r x)"
| "shape_value r (Constant t d) = None"
| "shape_value r (Out f xs t c) = shape_rule f (map (shape_value r) xs) (map (int_value r) xs)"
| "int_value r (Var n t c) = None"
| "int_value r (Constant t d) = (case d of IntData k \<Rightarrow> Some k | _ \<Rightarrow> None)"
| "int_value r (Out f xs t c) = int_rule f (map (shape_value r) xs) (map (int_value r) xs)"

subsection \<open>Example inputs\<close>

text \<open>A CUDA device on which the probe succeeds with version 3007 of the backend, the same
  with version 2000, and the variables and shapes of the end-to-end scenarios.\<close>

definition example_env :: env where
  "example_env = \<lparr>pygpu_present = True, device = ''cuda0'', bin_id = ''sm_35'',
                   try_flags = (True, []), dnn_version = (3007, 3007),
                   algo_fwd = ''small'', algo_bwd = ''none''\<rparr>"


definition example_img :: var where
  "example_img = Var (Some ''img'') (GpuArrayType ''float32'' 4) []"

definition example_kerns :: var where
  "example_kerns = Var (Some ''kerns'') (GpuArrayType ''float32'' 4) []"

definition example_output :: var where
  "example_output = Var (Some ''output'') (GpuArrayType ''float32'' 4) []"

definition example_desc :: var where
  "example_desc = Out (GpuDnnConvDesc (BM_str ''valid'') [1, 1] ''conv'')
                    [shape example_kerns] (CDataType conv_desc_ctype) []"

definition example_shapes :: "string \<Rightarrow> int list option" where
  "example_shapes n = (if n = ''img'' then Some [2, 3, 8, 8]
                       else if n = ''kerns'' then Some [4, 3, 3, 3] else None)"

text \<open>An output gradient, the two scale factors as scalar variables, a buffer that is not an
  allocation and has two consumers, an allocation with two consumers, and the result of a
  softmax with one consumer.\<close>

definition example_top :: var where
  "example_top = Var (Some ''top'') (GpuArrayType ''float32'' 4) []"

definition example_alpha :: var where
  "example_alpha = Var (Some ''alpha'') (Scalar ''float32'') []"

definition example_beta :: var where
  "example_beta = Var (Some ''beta'') (Scalar ''float32'') []"

definition example_shared :: var where
  "example_shared = Out GpuContiguous [Var (Some ''acc'') (GpuArrayType ''float32'' 4) []]
                      (GpuArrayType ''float32'' 4) [(1, 2), (2, 0)]"

definition example_alloc :: var where
  "example_alloc = Out (GpuAllocEmpty ''float32'')
                     [shape_i example_img 0, shape_i example_kerns 0,
                      shape_i example_img 2, shape_i example_img 3]
                     (GpuArrayType ''float32'' 4) [(1, 2), (2, 2)]"

definition example_softmax :: var where
  "example_softmax = Out (GpuDnnSoftmax ''channel'' ''accurate'') [example_img]
                       (GpuArrayType ''float32'' 4) [(1, 0)]"

definition example_gate :: gate where
  "example_gate = \<lparr>avail = Some True, msg = None, version_v = Some 3007, probe_runs = 1\<rparr>"

section \<open>Properties\<close>

subsection \<open>Output-shape inference\<close>

text \<open>
  With two spatial dimensions, non-zero strides and an explicit pad tuple, the inferred shape
  is batch, output channels, and \<open>(in + 2 * pad - kernel) div stride + 1\<close> for each spatial
  dimension.
\<close>

lemma get_out_shape_rank2_tuple:
  assumes "sh \<noteq> 0" and "sw \<noteq> 0"
  shows "get_out_shape (PyList (map PyInt [b, ci, h, w])) (PyList (map PyInt [nb, ci', kh, kw]))
           (BM_tuple [ph, pw]) [sh, sw]
         = Inr (map PyInt [b, nb, (h + 2 * ph - kh) div sh + 1, (w + 2 * pw - kw) div sw + 1])"
  using assms by (simp add: get_out_shape_def bindE_def index_def)

lemma get_out_shape_rank2_valid:
  assumes "sh \<noteq> 0" and "sw \<noteq> 0"
  shows "get_out_shape (PyList (map PyInt [b, ci, h, w])) (PyList (map PyInt [nb, ci', kh, kw]))
           (BM_str ''valid'') [sh, sw]
         = Inr (map PyInt [b, nb, (h + 2 * 0 - kh) div sh + 1, (w + 2 * 0 - kw) div sw + 1])"
  using assms by (simp add: get_out_shape_def bindE_def index_def)

lemma get_out_shape_rank2_full:
  assumes "sh \<noteq> 0" and "sw \<noteq> 0"
  shows "get_out_shape (PyList (map PyInt [b, ci, h, w])) (PyList (map PyInt [nb, ci', kh, kw]))
           (BM_str ''full'') [sh, sw]
         = Inr (map PyInt [b, nb, (h + 2 * (kh - 1) - kh) div sh + 1,
                           (w + 2 * (kw - 1) - kw) div sw + 1])"
  using assms by (simp add: get_out_shape_def bindE_def index_def)

text \<open>
  C1. The claim: for spatial rank 2 or 3 the inferred shape is batch, output channels and
  \<open>floor ((in + 2 * pad - kernel) / stride) + 1\<close> in every spatial dimension. For rank 3 the
  code does otherwise: on the image shape \<open>[2,3,8,8,8]\<close>, the kernel shape \<open>[4,3,3,3,3]\<close>,
  padding \<^verbatim>\<open>'valid'\<close> and stride \<open>(1,1,1)\<close> the last entry is \<open>1\<close>, where the formula gives
  \<open>6\<close>; with padding \<^verbatim>\<open>'full'\<close> the local \<^verbatim>\<open>padd\<close> is read before it is assigned. For
  rank 2 the example of the claim gives \<open>[2,4,6,6]\<close>.
\<close>

theorem get_out_shape_rank3_differs:
  "get_out_shape (PyList (map PyInt [2,3,8,8,8])) (PyList (map PyInt [4,3,3,3,3]))
      (BM_str ''valid'') [1,1,1] = Inr (map PyInt [2,4,6,6,1])
   \<and> (8 + 2 * 0 - 3) div 1 + 1 = (6::int)
   \<and> get_out_shape (PyList (map PyInt [2,3,8,8,8])) (PyList (map PyInt [4,3,3,3,3]))
      (BM_str ''full'') [1,1,1] = Inl (UnboundLocalError ''padd'')
   \<and> get_out_shape (PyList (map PyInt [2,3,8,8])) (PyList (map PyInt [4,3,3,3]))
      (BM_str ''valid'') [1,1] = Inr (map PyInt [2,4,6,6])"
  by (simp add: get_out_shape_def bindE_def index_def local_var_def)

subsection \<open>The availability gate\<close>

lemma dnn_available_cached:
  "avail s = Some a \<Longrightarrow> dnn_available s e = (Inr (Some a), s)"
  by (simp add: dnn_available.simps)

lemma version_cached:
  "avail s = Some a \<Longrightarrow> version s e =
     (if a \<noteq> True then (Inl (Exception msg_no_version (msg s)), s)
      else (case version_v s of
              Some v \<Rightarrow> (Inr v, s)
            | None \<Rightarrow>
                if fst (dnn_version e) \<noteq> snd (dnn_version e) then
                  (Inl (RuntimeError msg_mixed), s)
                else (Inr (snd (dnn_version e)), s\<lparr>version_v := Some (snd (dnn_version e))\<rparr>)))"
  by (simp add: version.simps dnn_available_cached)

lemma version_keeps:
  "avail s = Some a \<Longrightarrow>
     avail (snd (version s e)) = Some a \<and> probe_runs (snd (version s e)) = probe_runs s"
  by (simp add: version_cached split: option.splits)





text \<open>The stages that end the probe as the claim C6 says: no \<^verbatim>\<open>pygpu\<close>, a device that is
  not a CUDA device, a failed compilation.\<close>

lemma dnn_available_failing_stages:
  assumes "avail s = None"
  shows "\<not> pygpu_present e \<Longrightarrow>
           fst (dnn_available s e) = Inr (Some False)
           \<and> avail (snd (dnn_available s e)) = Some False
           \<and> msg (snd (dnn_available s e)) = Some msg_no_pygpu"
    and "pygpu_present e \<Longrightarrow> \<not> startswith (device e) ''cuda'' \<Longrightarrow>
           fst (dnn_available s e) = Inr (Some False)
           \<and> avail (snd (dnn_available s e)) = Some False
           \<and> msg (snd (dnn_available s e)) = Some (msg_not_cuda (device e))"
    and "pygpu_present e \<Longrightarrow> startswith (device e) ''cuda'' \<Longrightarrow> \<not> fst (try_flags e) \<Longrightarrow>
           fst (dnn_available s e) = Inr (Some False)
           \<and> avail (snd (dnn_available s e)) = Some False
           \<and> msg (snd (dnn_available s e)) = Some (msg_compile (snd (try_flags e)))"
  using assms by (simp_all add: dnn_available.simps Let_def)

text \<open>
  C6. The claim: a device whose compute capability is below the threshold ends the probe
  with the verdict unavailable. The code does otherwise. With \<^verbatim>\<open>bin_id = 'sm_20'\<close>, a
  compiler probe that succeeds and the backend version 3007, the comparison of line 48 is
  between \<^verbatim>\<open>'sm_'\<close> and \<^verbatim>\<open>'30'\<close> and does not hold, and the gate reports available. With
  a \<^verbatim>\<open>bin_id\<close> for which the comparison holds (\<^verbatim>\<open>'2000'\<close>), the branch records its
  reason and the verdict unavailable but does not return; line 78 overwrites the verdict,
  and the gate reports available with the reason of the device stage still in
  \<^verbatim>\<open>dnn_available.msg\<close>.
\<close>

theorem dnn_available_low_capability_available:
  "dnn_available initial_gate
     \<lparr>pygpu_present = True, device = ''cuda0'', bin_id = ''sm_20'', try_flags = (True, []),
      dnn_version = (3007, 3007), algo_fwd = ''small'', algo_bwd = ''none''\<rparr>
   = (Inr (Some True), \<lparr>avail = Some True, msg = None, version_v = Some 3007, probe_runs = 1\<rparr>)
   \<and> dnn_available initial_gate
     \<lparr>pygpu_present = True, device = ''cuda0'', bin_id = ''2000'', try_flags = (True, []),
      dnn_version = (3007, 3007), algo_fwd = ''small'', algo_bwd = ''none''\<rparr>
   = (Inr (Some True),
      \<lparr>avail = Some True, msg = Some msg_device, version_v = Some 3007, probe_runs = 1\<rparr>)"
  by (simp add: dnn_available.simps version_cached initial_gate_def Let_def startswith_def
        drop_last2_def)

subsection \<open>Facts about the primitives\<close>

lemma bindE_Inr: "bindE (Inr a) f = f a"
  by (simp add: bindE_def)

lemma bindE_Inl: "bindE (Inl a) f = Inl a"
  by (simp add: bindE_def)

lemma as_gpuarray_variable_gpu:
  "vtype_of x = GpuArrayType d n \<Longrightarrow> as_gpuarray_variable x = Inr x"
  by (simp add: as_gpuarray_variable_def)

lemma gpu_contiguous_gpu:
  "vtype_of x = GpuArrayType d n \<Longrightarrow>
     gpu_contiguous x = Inr (Out GpuContiguous [x] (GpuArrayType d n) [])"
  by (simp add: gpu_contiguous_def as_gpuarray_variable_def bindE_def)

lemma gpu_contiguous_host:
  "vtype_of x = TensorType d n \<Longrightarrow>
     gpu_contiguous x =
       Inr (Out GpuContiguous [Out GpuFromHost [x] (GpuArrayType d n) []] (GpuArrayType d n) [])"
  by (simp add: gpu_contiguous_def as_gpuarray_variable_def bindE_def)


lemma dimshuffle4:
  "vtype_of x = GpuArrayType d 4 \<Longrightarrow>
     dimshuffle x [1, 0, 2, 3] = Inr (Out (DimShuffle [1, 0, 2, 3]) [x] (TensorType d 4) [])"
  by (simp add: dimshuffle_def dtype_def ndim_def)

subsection \<open>Default scale factors\<close>

lemma ensure_dt_default_one:
  "ensure_dt NoneArg one_const name dt =
     Inr (if dt = ''float64'' then one_const else astype one_const dt)"
  by (simp add: ensure_dt_def one_const_def scalar_constant_def clone_def ndim_def dtype_def
        as_scalar_def bindE_def is_Scalar_def)

lemma ensure_dt_default_zero:
  "ensure_dt NoneArg zero_const name dt =
     Inr (if dt = ''float64'' then zero_const else astype zero_const dt)"
  by (simp add: ensure_dt_def zero_const_def scalar_constant_def clone_def ndim_def dtype_def
        as_scalar_def bindE_def is_Scalar_def)

lemma ensure_dt_scalar_var:
  "vtype_of v = Scalar dt \<Longrightarrow> ensure_dt (Variable v) dflt name dt = Inr v"
  by (simp add: ensure_dt_def ndim_def dtype_def as_scalar_def bindE_def is_Scalar_def)

text \<open>On arguments that pass its checks, \<^verbatim>\<open>make_node\<close> builds the node from its three arrays,
  the descriptor and the two scale factors that \<^verbatim>\<open>ensure_dt\<close> returns for the dtype of the
  first array.\<close>

lemma conv_make_node_wf:
  assumes "vtype_of a = GpuArrayType da nd" and "vtype_of b = GpuArrayType db nd"
    and "vtype_of out_buf = GpuArrayType dc nd" and "nd = 4 \<or> nd = 5"
    and "vtype_of desc = CDataType conv_desc_ctype"
    and "\<not> (nd = 5 \<and> (case op_algo self of Some al \<Rightarrow> al \<in> set bad5 | None \<Rightarrow> False))"
  shows "conv_make_node self n1 n2 mo bad5 err5 a b out_buf desc alpha beta =
     bindE (ensure_dt alpha one_const ''alpha'' da) (\<lambda>al.
     bindE (ensure_dt beta zero_const ''beta'' da) (\<lambda>be.
     Inr (Out self [a, b, out_buf, desc, al, be] (GpuArrayType dc nd) [])))"
  using assms
  by (auto simp add: conv_make_node_def as_gpuarray_variable_gpu bindE_def ndim_def dtype_def)

text \<open>
  C10. When \<^verbatim>\<open>alpha\<close> or \<^verbatim>\<open>beta\<close> is left out, the forward, the weight-gradient and the
  input-gradient operator build their node with the scalar constant 1 for \<^verbatim>\<open>alpha\<close> and
  the scalar constant 0 for \<^verbatim>\<open>beta\<close>, each of the dtype of the first array argument: the
  constant itself when that dtype is \<^verbatim>\<open>float64\<close>, a cast of it otherwise. Here the three
  array arguments are GPU arrays of one rank, 4 or 5, \<open>desc\<close> is a convolution descriptor,
  and the algorithm is one that the operator accepts for the rank.
\<close>

theorem conv_make_node_default_scalars:
  assumes "vtype_of a = GpuArrayType da nd" and "vtype_of b = GpuArrayType db nd"
    and "vtype_of out_buf = GpuArrayType dc nd" and "nd = 4 \<or> nd = 5"
    and "vtype_of desc = CDataType conv_desc_ctype"
    and "nd = 5 \<longrightarrow> algo \<notin> {''fft'', ''deterministic''}"
    and "make_node = GpuDnnConv_make_node (GpuDnnConv algo ip) \<and> self = GpuDnnConv algo ip
         \<or> make_node = GpuDnnConvGradW_make_node (GpuDnnConvGradW algo ip)
             \<and> self = GpuDnnConvGradW algo ip
         \<or> make_node = GpuDnnConvGradI_make_node (GpuDnnConvGradI algo ip)
             \<and> self = GpuDnnConvGradI algo ip"
    and "one_dt = (if da = ''float64'' then one_const else astype one_const da)"
    and "zero_dt = (if da = ''float64'' then zero_const else astype zero_const da)"
  shows "make_node a b out_buf desc NoneArg NoneArg
           = Inr (Out self [a, b, out_buf, desc, one_dt, zero_dt] (GpuArrayType dc nd) [])
         \<and> (vtype_of be = Scalar da \<longrightarrow>
              make_node a b out_buf desc NoneArg (Variable be)
                = Inr (Out self [a, b, out_buf, desc, one_dt, be] (GpuArrayType dc nd) []))
         \<and> (vtype_of al = Scalar da \<longrightarrow>
              make_node a b out_buf desc (Variable al) NoneArg
                = Inr (Out self [a, b, out_buf, desc, al, zero_dt] (GpuArrayType dc nd) []))
         \<and> one_const = Constant (Scalar ''float64'') (FloatData 1)
         \<and> zero_const = Constant (Scalar ''float64'') (FloatData 0)
         \<and> vtype_of one_dt = Scalar da \<and> vtype_of zero_dt = Scalar da"
proof -
  have g: "\<And>alpha beta. make_node a b out_buf desc alpha beta =
     bindE (ensure_dt alpha one_const ''alpha'' da) (\<lambda>al.
     bindE (ensure_dt beta zero_const ''beta'' da) (\<lambda>be.
     Inr (Out self [a, b, out_buf, desc, al, be] (GpuArrayType dc nd) [])))"
    using assms(7)
  proof (elim disjE conjE)
    fix alpha beta
    assume m: "make_node = GpuDnnConv_make_node (GpuDnnConv algo ip)" "self = GpuDnnConv algo ip"
    have "\<not> (nd = 5 \<and> (case op_algo self of Some al \<Rightarrow> al \<in> set [''fft''] | None \<Rightarrow> False))"
      using assms(6) m by auto
    from conv_make_node_wf [OF assms(1-5) this] m
    show "make_node a b out_buf desc alpha beta =
     bindE (ensure_dt alpha one_const ''alpha'' da) (\<lambda>al.
     bindE (ensure_dt beta zero_const ''beta'' da) (\<lambda>be.
     Inr (Out self [a, b, out_buf, desc, al, be] (GpuArrayType dc nd) [])))"
      by (simp add: GpuDnnConv_make_node_def)
  next
    fix alpha beta
    assume m: "make_node = GpuDnnConvGradW_make_node (GpuDnnConvGradW algo ip)"
      "self = GpuDnnConvGradW algo ip"
    have "\<not> (nd = 5 \<and> (case op_algo self of Some al \<Rightarrow> al \<in> set [''fft'', ''deterministic'']
                        | None \<Rightarrow> False))"
      using assms(6) m by auto
    from conv_make_node_wf [OF assms(1-5) this] m
    show "make_node a b out_buf desc alpha beta =
     bindE (ensure_dt alpha one_const ''alpha'' da) (\<lambda>al.
     bindE (ensure_dt beta zero_const ''beta'' da) (\<lambda>be.
     Inr (Out self [a, b, out_buf, desc, al, be] (GpuArrayType dc nd) [])))"
      by (simp add: GpuDnnConvGradW_make_node_def)
  next
    fix alpha beta
    assume m: "make_node = GpuDnnConvGradI_make_node (GpuDnnConvGradI algo ip)"
      "self = GpuDnnConvGradI algo ip"
    have "\<not> (nd = 5 \<and> (case op_algo self of Some al \<Rightarrow> al \<in> set [''fft'', ''deterministic'']
                        | None \<Rightarrow> False))"
      using assms(6) m by auto
    from conv_make_node_wf [OF assms(1-5) this] m
    show "make_node a b out_buf desc alpha beta =
     bindE (ensure_dt alpha one_const ''alpha'' da) (\<lambda>al.
     bindE (ensure_dt beta zero_const ''beta'' da) (\<lambda>be.
     Inr (Out self [a, b, out_buf, desc, al, be] (GpuArrayType dc nd) [])))"
      by (simp add: GpuDnnConvGradI_make_node_def)
  qed
  have t: "vtype_of one_dt = Scalar da" "vtype_of zero_dt = Scalar da"
    by (simp_all add: assms(8,9) one_const_def zero_const_def scalar_constant_def astype_def)
  have m: "make_node a b out_buf desc NoneArg NoneArg
           = Inr (Out self [a, b, out_buf, desc, one_dt, zero_dt] (GpuArrayType dc nd) [])"
    "vtype_of be = Scalar da \<longrightarrow>
       make_node a b out_buf desc NoneArg (Variable be)
         = Inr (Out self [a, b, out_buf, desc, one_dt, be] (GpuArrayType dc nd) [])"
    "vtype_of al = Scalar da \<longrightarrow>
       make_node a b out_buf desc (Variable al) NoneArg
         = Inr (Out self [a, b, out_buf, desc, al, zero_dt] (GpuArrayType dc nd) [])"
    by (simp_all add: g ensure_dt_default_one ensure_dt_default_zero ensure_dt_scalar_var
          bindE_Inr assms(8,9))
  have c: "one_const = Constant (Scalar ''float64'') (FloatData 1)"
    "zero_const = Constant (Scalar ''float64'') (FloatData 0)"
    by (simp_all add: one_const_def zero_const_def scalar_constant_def)
  from m c t show ?thesis by blast
qed

theorem conv_make_node_default_scalars_witness:
  "GpuDnnConv_make_node (GpuDnnConv ''small'' False)
      example_img example_kerns example_output example_desc NoneArg NoneArg
    = Inr (Out (GpuDnnConv ''small'' False)
             [example_img, example_kerns, example_output, example_desc,
              astype one_const ''float32'', astype zero_const ''float32'']
             (GpuArrayType ''float32'' 4) [])
   \<and> GpuDnnConv_make_node (GpuDnnConv ''small'' False)
      example_img example_kerns example_output example_desc NoneArg (Variable example_beta)
    = Inr (Out (GpuDnnConv ''small'' False)
             [example_img, example_kerns, example_output, example_desc,
              astype one_const ''float32'', example_beta]
             (GpuArrayType ''float32'' 4) [])
   \<and> GpuDnnConv_make_node (GpuDnnConv ''small'' False)
      example_img example_kerns example_output example_desc (Variable example_alpha) NoneArg
    = Inr (Out (GpuDnnConv ''small'' False)
             [example_img, example_kerns, example_output, example_desc,
              example_alpha, astype zero_const ''float32'']
             (GpuArrayType ''float32'' 4) [])
   \<and> GpuDnnConvGradW_make_node (GpuDnnConvGradW ''none'' False)
      example_img example_kerns example_output example_desc NoneArg NoneArg
    = Inr (Out (GpuDnnConvGradW ''none'' False)
             [example_img, example_kerns, example_output, example_desc,
              astype one_const ''float32'', astype zero_const ''float32'']
             (GpuArrayType ''float32'' 4) [])
   \<and> GpuDnnConvGradI_make_node (GpuDnnConvGradI ''none'' False)
      example_img example_kerns example_output example_desc NoneArg NoneArg
    = Inr (Out (GpuDnnConvGradI ''none'' False)
             [example_img, example_kerns, example_output, example_desc,
              astype one_const ''float32'', astype zero_const ''float32'']
             (GpuArrayType ''float32'' 4) [])"
  using
    conv_make_node_default_scalars [where a = example_img and da = "''float32''" and nd = 4
      and b = example_kerns and db = "''float32''" and out_buf = example_output
      and dc = "''float32''" and desc = example_desc and algo = "''small''" and ip = False
      and make_node = "GpuDnnConv_make_node (GpuDnnConv ''small'' False)"
      and self = "GpuDnnConv ''small'' False" and one_dt = "astype one_const ''float32''"
      and zero_dt = "astype zero_const ''float32''" and be = example_beta
      and al = example_alpha]
    conv_make_node_default_scalars [where a = example_img and da = "''float32''" and nd = 4
      and b = example_kerns and db = "''float32''" and out_buf = example_output
      and dc = "''float32''" and desc = example_desc and algo = "''none''" and ip = False
      and make_node = "GpuDnnConvGradW_make_node (GpuDnnConvGradW ''none'' False)"
      and self = "GpuDnnConvGradW ''none'' False" and one_dt = "astype one_const ''float32''"
      and zero_dt = "astype zero_const ''float32''"]
    conv_make_node_default_scalars [where a = example_img and da = "''float32''" and nd = 4
      and b = example_kerns and db = "''float32''" and out_buf = example_output
      and dc = "''float32''" and desc = example_desc and algo = "''none''" and ip = False
      and make_node = "GpuDnnConvGradI_make_node (GpuDnnConvGradI ''none'' False)"
      and self = "GpuDnnConvGradI ''none'' False" and one_dt = "astype one_const ''float32''"
      and zero_dt = "astype zero_const ''float32''"]
  by (simp add: example_img_def example_kerns_def example_output_def example_desc_def
        example_alpha_def example_beta_def)

subsection \<open>The gradient of the forward convolution\<close>



subsection \<open>The full convolution as an input gradient\<close>

lemma dnn_conv_full_result:
  assumes "vtype_of img = GpuArrayType di 4" and "vtype_of kerns = GpuArrayType dk 4"
    and "algo_bwd e \<in> set bwd_algos"
  shows "dnn_conv_full e img kerns conv_mode =
     (let img_c = Out GpuContiguous [img] (GpuArrayType di 4) [];
          kerns_c = Out GpuContiguous
                      [Out GpuFromHost [Out (DimShuffle [1, 0, 2, 3]) [kerns] (TensorType dk 4) []]
                         (GpuArrayType dk 4) []] (GpuArrayType dk 4) [];
          out = GpuAllocEmpty_call di
                  [shape_i img_c 0, shape_i kerns_c 1,
                   Out (Elemwise Sub)
                     [Out (Elemwise Add) [shape_i img_c 2, shape_i kerns_c 2]
                        (TensorType ''int64'' 0) [],
                      Constant (TensorType ''int64'' 0) (IntData 1)] (TensorType ''int64'' 0) [],
                   Out (Elemwise Sub)
                     [Out (Elemwise Add) [shape_i img_c 3, shape_i kerns_c 3]
                        (TensorType ''int64'' 0) [],
                      Constant (TensorType ''int64'' 0) (IntData 1)] (TensorType ''int64'' 0) []];
          desc = Out (GpuDnnConvDesc (BM_str ''valid'') [1, 1]
                        (if conv_mode = ''conv'' then ''cross'' else ''conv''))
                   [shape kerns_c] (CDataType conv_desc_ctype) []
      in Inr (Out (GpuDnnConvGradI (algo_bwd e) False)
                [kerns_c, img_c, out, desc,
                 if dk = ''float64'' then one_const else astype one_const dk,
                 if dk = ''float64'' then zero_const else astype zero_const dk]
                (GpuArrayType di 4) []))"
proof -
  let ?kt = "Out (DimShuffle [1, 0, 2, 3]) [kerns] (TensorType dk 4) []"
  let ?kc = "Out GpuContiguous [Out GpuFromHost [?kt] (GpuArrayType dk 4) []] (GpuArrayType dk 4) []"
  let ?ic = "Out GpuContiguous [img] (GpuArrayType di 4) []"
  have kt: "vtype_of ?kt = TensorType dk 4" by simp
  have kc: "vtype_of ?kc = GpuArrayType dk 4" by simp
  have ic: "vtype_of ?ic = GpuArrayType di 4" by simp
  have dinit: "GpuDnnConvDesc_init (BM_str ''valid'') [1, 1]
                 (if conv_mode = ''conv'' then ''cross'' else ''conv'')
     = Inr (GpuDnnConvDesc (BM_str ''valid'') [1, 1]
              (if conv_mode = ''conv'' then ''cross'' else ''conv''))"
    by (simp add: GpuDnnConvDesc_init_def bindE_def)
  have dmk: "\<And>f. GpuDnnConvDesc_make_node f (shape ?kc)
                = Inr (Out f [shape ?kc] (CDataType conv_desc_ctype) [])"
    by (simp add: GpuDnnConvDesc_make_node_def shape_def ndim_def dtype_def)
  have a5: "\<not> ((4::nat) = 5 \<and> (case op_algo (GpuDnnConvGradI (algo_bwd e) False) of
                                    Some al \<Rightarrow> al \<in> set [''fft'', ''deterministic'']
                                  | None \<Rightarrow> False))"
    by simp
  have mk: "\<And>out desc. vtype_of out = GpuArrayType di 4
              \<Longrightarrow> vtype_of desc = CDataType conv_desc_ctype \<Longrightarrow>
    GpuDnnConvGradI_make_node (GpuDnnConvGradI (algo_bwd e) False) ?kc ?ic out desc NoneArg NoneArg =
     Inr (Out (GpuDnnConvGradI (algo_bwd e) False) [?kc, ?ic, out, desc,
                  if dk = ''float64'' then one_const else astype one_const dk,
                  if dk = ''float64'' then zero_const else astype zero_const dk]
            (GpuArrayType di 4) [])"
    unfolding GpuDnnConvGradI_make_node_def
    by (subst conv_make_node_wf [OF kc ic _ _ _ a5])
       (simp_all add: ensure_dt_default_one ensure_dt_default_zero bindE_def)
  have gi: "GpuDnnConvGradI_init e False None = Inr (GpuDnnConvGradI (algo_bwd e) False)"
    using assms(3) by (simp add: GpuDnnConvGradI_init_def)
  have dt: "dtype ?ic = Some di" by (simp add: dtype_def)
  have "dnn_conv_full e img kerns conv_mode = Inr (Out (GpuDnnConvGradI (algo_bwd e) False)
          [?kc, ?ic, GpuAllocEmpty_call di
             [shape_i ?ic 0, shape_i ?kc 1,
              as_tensor_variable
                (py_sub (py_add (Sym (shape_i ?ic 2)) (Sym (shape_i ?kc 2))) (PyInt 1)),
              as_tensor_variable
                (py_sub (py_add (Sym (shape_i ?ic 3)) (Sym (shape_i ?kc 3))) (PyInt 1))],
           Out (GpuDnnConvDesc (BM_str ''valid'') [1, 1]
                  (if conv_mode = ''conv'' then ''cross'' else ''conv''))
             [shape ?kc] (CDataType conv_desc_ctype) [],
           if dk = ''float64'' then one_const else astype one_const dk,
           if dk = ''float64'' then zero_const else astype zero_const dk]
          (GpuArrayType di 4) [])"
    unfolding dnn_conv_full_def gpu_contiguous_gpu [OF assms(1)] dimshuffle4 [OF assms(2)]
      gpu_contiguous_host [OF kt] bindE_Inr Let_def dt option.case dinit dmk gi
    by (subst mk) (simp_all add: GpuAllocEmpty_call_def)
  then show ?thesis
    by (simp add: Let_def sym_binop_def)
qed

text \<open>The value of \<^verbatim>\<open>shape_i\<close> of a variable whose shape is known.\<close>

lemma int_value_shape_i:
  "shape_value r x = Some sh \<Longrightarrow> i < length sh \<Longrightarrow> int_value r (shape_i x i) = Some (sh ! i)"
  by (simp add: shape_i_def int_rule_def)

text \<open>
  C3. With \<^verbatim>\<open>border_mode\<close> \<^verbatim>\<open>'full'\<close>, \<^verbatim>\<open>subsample\<close> \<open>(1, 1)\<close> and a direction hint
  other than \<^verbatim>\<open>'forward!'\<close>, \<^verbatim>\<open>dnn_conv\<close> on two GPU arrays of rank 4 returns an
  application of \<^verbatim>\<open>GpuDnnConvGradI\<close> to the contiguous transposed kernels, the contiguous
  image, an empty buffer and a descriptor; the descriptor has \<^verbatim>\<open>border_mode\<close>
  \<^verbatim>\<open>'valid'\<close>, \<^verbatim>\<open>subsample\<close> \<open>(1, 1)\<close> and the other of the two convolution modes, and
  is built from the shape of the kernels. Where the image has the shape \<open>[b, c, h, w]\<close> and
  the kernels \<open>[nb, c', kh, kw]\<close>, the result has the shape
  \<open>[b, nb, h + kh - 1, w + kw - 1]\<close>. Here \<^verbatim>\<open>workmem\<close> and \<^verbatim>\<open>algo\<close> are not both
  given and the configured backward algorithm is one that \<^verbatim>\<open>GpuDnnConvGradI\<close> accepts.
\<close>

theorem dnn_conv_full_lowers_to_gradI:
  assumes "vtype_of img = GpuArrayType di 4" and "vtype_of kerns = GpuArrayType dk 4"
    and "algo_bwd e \<in> set bwd_algos"
    and "direction_hint \<noteq> Some ''forward!''"
    and "workmem = None \<or> algo = None"
  shows "\<exists>kerns_c img_c out desc alpha beta.
           dnn_conv s e img kerns (BM_str ''full'') [1, 1] conv_mode direction_hint workmem algo
             = (Inr (Out (GpuDnnConvGradI (algo_bwd e) False)
                       [kerns_c, img_c, out, desc, alpha, beta] (GpuArrayType di 4) []), s)
         \<and> gpu_contiguous img = Inr img_c
         \<and> bindE (dimshuffle kerns [1, 0, 2, 3]) gpu_contiguous = Inr kerns_c
         \<and> desc = Out (GpuDnnConvDesc (BM_str ''valid'') [1, 1]
                         (if conv_mode = ''conv'' then ''cross'' else ''conv''))
                     [shape kerns_c] (CDataType conv_desc_ctype) []
         \<and> ensure_dt NoneArg one_const ''alpha'' dk = Inr alpha
         \<and> ensure_dt NoneArg zero_const ''beta'' dk = Inr beta
         \<and> (\<forall>r b c h w nb c' kh kw.
               shape_value r img = Some [b, c, h, w]
               \<longrightarrow> shape_value r kerns = Some [nb, c', kh, kw]
               \<longrightarrow> shape_value r out = Some [b, nb, h + kh - 1, w + kw - 1]
                   \<and> shape_value r
                        (Out (GpuDnnConvGradI (algo_bwd e) False)
                           [kerns_c, img_c, out, desc, alpha, beta] (GpuArrayType di 4) [])
                      = Some [b, nb, h + kh - 1, w + kw - 1])"
proof -
  let ?kt = "Out (DimShuffle [1, 0, 2, 3]) [kerns] (TensorType dk 4) []"
  let ?kc = "Out GpuContiguous [Out GpuFromHost [?kt] (GpuArrayType dk 4) []] (GpuArrayType dk 4) []"
  let ?ic = "Out GpuContiguous [img] (GpuArrayType di 4) []"
  let ?out = "GpuAllocEmpty_call di
                  [shape_i ?ic 0, shape_i ?kc 1,
                   Out (Elemwise Sub)
                     [Out (Elemwise Add) [shape_i ?ic 2, shape_i ?kc 2]
                        (TensorType ''int64'' 0) [],
                      Constant (TensorType ''int64'' 0) (IntData 1)] (TensorType ''int64'' 0) [],
                   Out (Elemwise Sub)
                     [Out (Elemwise Add) [shape_i ?ic 3, shape_i ?kc 3]
                        (TensorType ''int64'' 0) [],
                      Constant (TensorType ''int64'' 0) (IntData 1)] (TensorType ''int64'' 0) []]"
  let ?desc = "Out (GpuDnnConvDesc (BM_str ''valid'') [1, 1]
                        (if conv_mode = ''conv'' then ''cross'' else ''conv''))
                   [shape ?kc] (CDataType conv_desc_ctype) []"
  let ?al = "if dk = ''float64'' then one_const else astype one_const dk"
  let ?be = "if dk = ''float64'' then zero_const else astype zero_const dk"
  have kt: "vtype_of ?kt = TensorType dk 4" by simp
  have 1: "dnn_conv s e img kerns (BM_str ''full'') [1, 1] conv_mode direction_hint workmem algo
             = (Inr (Out (GpuDnnConvGradI (algo_bwd e) False)
                       [?kc, ?ic, ?out, ?desc, ?al, ?be] (GpuArrayType di 4) []), s)"
    using assms(4,5) dnn_conv_full_result [OF assms(1-3), of conv_mode]
    by (auto simp add: dnn_conv_def Let_def)
  have 2: "gpu_contiguous img = Inr ?ic"
    by (rule gpu_contiguous_gpu [OF assms(1)])
  have 3: "bindE (dimshuffle kerns [1, 0, 2, 3]) gpu_contiguous = Inr ?kc"
    unfolding dimshuffle4 [OF assms(2)] bindE_Inr by (rule gpu_contiguous_host [OF kt])
  have 4: "ensure_dt NoneArg one_const ''alpha'' dk = Inr ?al"
    "ensure_dt NoneArg zero_const ''beta'' dk = Inr ?be"
    by (simp_all add: ensure_dt_default_one ensure_dt_default_zero)
  have 5: "shape_value r ?out = Some [b, nb, h + kh - 1, w + kw - 1]
           \<and> shape_value r (Out (GpuDnnConvGradI (algo_bwd e) False)
                              [?kc, ?ic, ?out, ?desc, ?al, ?be] (GpuArrayType di 4) [])
             = Some [b, nb, h + kh - 1, w + kw - 1]"
    if i: "shape_value r img = Some [b, c, h, w]"
      and k: "shape_value r kerns = Some [nb, c', kh, kw]" for r b c h w nb c' kh kw
  proof -
    have si: "shape_value r ?ic = Some [b, c, h, w]"
      using i by (simp add: shape_rule_def)
    have sk: "shape_value r ?kc = Some [c', nb, kh, kw]"
      using k by (simp add: shape_rule_def)
    have v: "int_value r (shape_i ?ic 0) = Some b" "int_value r (shape_i ?kc 1) = Some nb"
      "int_value r (shape_i ?ic 2) = Some h" "int_value r (shape_i ?kc 2) = Some kh"
      "int_value r (shape_i ?ic 3) = Some w" "int_value r (shape_i ?kc 3) = Some kw"
      using int_value_shape_i [OF si, of 0] int_value_shape_i [OF sk, of 1]
        int_value_shape_i [OF si, of 2] int_value_shape_i [OF sk, of 2]
        int_value_shape_i [OF si, of 3] int_value_shape_i [OF sk, of 3]
      by simp_all
    have so: "shape_value r ?out = Some [b, nb, h + kh - 1, w + kw - 1]"
      using v by (simp add: GpuAllocEmpty_call_def shape_rule_def int_rule_def)
    have "shape_value r (Out (GpuDnnConvGradI (algo_bwd e) False)
                              [?kc, ?ic, ?out, ?desc, ?al, ?be] (GpuArrayType di 4) [])
             = shape_value r ?out"
      by (simp add: shape_rule_def conv_infer_shape_def index_def bindE_def so)
    with so show ?thesis by simp
  qed
  from 1 2 3 4 5 show ?thesis by blast
qed

theorem dnn_conv_full_lowers_to_gradI_witness:
  "\<exists>ins x. dnn_conv initial_gate example_env example_img example_kerns (BM_str ''full'') [1, 1]
              ''conv'' None None None
            = (Inr (Out (GpuDnnConvGradI ''none'' False) ins (GpuArrayType ''float32'' 4) []),
               initial_gate)
     \<and> ins ! 3 = Out (GpuDnnConvDesc (BM_str ''valid'') [1, 1] ''cross'') [x]
                    (CDataType conv_desc_ctype) []
     \<and> shape_value example_shapes
          (Out (GpuDnnConvGradI ''none'' False) ins (GpuArrayType ''float32'' 4) [])
        = Some [2, 4, 10, 10]"
proof -
  have a: "algo_bwd example_env = ''none''" by (simp add: example_env_def)
  have "vtype_of example_img = GpuArrayType ''float32'' 4"
    and "vtype_of example_kerns = GpuArrayType ''float32'' 4"
    and "algo_bwd example_env \<in> set bwd_algos"
    and "(None :: string option) \<noteq> Some ''forward!''"
    and "(None :: string option) = None \<or> (None :: string option) = None"
    by (simp_all add: example_img_def example_kerns_def a bwd_algos_def)
  note t = dnn_conv_full_lowers_to_gradI [OF this, where s = initial_gate
      and conv_mode = "''conv''", unfolded a HOL.simp_thms if_True]
  from t obtain kerns_c img_c out desc alpha beta where
    r: "dnn_conv initial_gate example_env example_img example_kerns (BM_str ''full'') [1, 1]
          ''conv'' None None None
        = (Inr (Out (GpuDnnConvGradI ''none'' False)
                  [kerns_c, img_c, out, desc, alpha, beta] (GpuArrayType ''float32'' 4) []),
           initial_gate)"
    and d: "desc = Out (GpuDnnConvDesc (BM_str ''valid'') [1, 1] ''cross'')
                     [shape kerns_c] (CDataType conv_desc_ctype) []"
    and sh0: "\<forall>r b c h w nb c' kh kw.
               shape_value r example_img = Some [b, c, h, w]
               \<longrightarrow> shape_value r example_kerns = Some [nb, c', kh, kw]
               \<longrightarrow> shape_value r out = Some [b, nb, h + kh - 1, w + kw - 1]
                   \<and> shape_value r
                        (Out (GpuDnnConvGradI ''none'' False)
                           [kerns_c, img_c, out, desc, alpha, beta] (GpuArrayType ''float32'' 4) [])
                      = Some [b, nb, h + kh - 1, w + kw - 1]"
    by (elim exE conjE)
  have sh: "shape_value r
                        (Out (GpuDnnConvGradI ''none'' False)
                           [kerns_c, img_c, out, desc, alpha, beta] (GpuArrayType ''float32'' 4) [])
                      = Some [b, nb, h + kh - 1, w + kw - 1]"
    if "shape_value r example_img = Some [b, c, h, w]"
      and "shape_value r example_kerns = Some [nb, c', kh, kw]" for r b c h w nb c' kh kw
    using sh0 [rule_format, OF that] by (rule conjunct2)
  have "shape_value example_shapes example_img = Some [2, 3, 8, 8]"
    and "shape_value example_shapes example_kerns = Some [4, 3, 3, 3]"
    by (simp_all add: example_img_def example_kerns_def example_shapes_def)
  from sh [OF this]
  have "shape_value example_shapes
          (Out (GpuDnnConvGradI ''none'' False)
             [kerns_c, img_c, out, desc, alpha, beta] (GpuArrayType ''float32'' 4) [])
        = Some [2, 4, 10, 10]"
    by simp
  with r d show ?thesis by (intro exI [of _ "[kerns_c, img_c, out, desc, alpha, beta]"] exI [of _ "shape kerns_c"]) simp
qed

subsection \<open>Descriptors for three dimensions\<close>

lemma version_example:
  "version initial_gate example_env
     = (Inr 3007, \<lparr>avail = Some True, msg = None, version_v = Some 3007, probe_runs = 1\<rparr>)"
  by (simp add: version.simps dnn_available.simps initial_gate_def example_env_def Let_def
        startswith_def drop_last2_def)





subsection \<open>The in-place rules\<close>

lemma conv_make_node_result:
  assumes "conv_make_node self n1 n2 mo bad5 err5 a b c desc alpha beta = Inr v"
  shows "\<exists>a' b' c' al be. v = Out self [a', b', c', desc, al, be] (vtype_of c') []
           \<and> as_gpuarray_variable c = Inr c'"
  using assms
  by (auto simp add: conv_make_node_def bindE_def split: sum.splits if_splits option.splits)

lemma conv_call_result:
  assumes "conv_call (conv_make_node self n1 n2 mo bad5 err5) inputs = Inr v"
  shows "\<exists>ins c c'. v = Out self ins (vtype_of c') [] \<and> index inputs 2 = Inr c
           \<and> as_gpuarray_variable c = Inr c' \<and> index ins 2 = Inr c'"
proof -
  from assms obtain a b c d alpha beta where
    i: "index inputs 2 = Inr c"
    and m: "conv_make_node self n1 n2 mo bad5 err5 a b c d alpha beta = Inr v"
    by (auto simp add: conv_call_def index_def split: list.splits)
  from conv_make_node_result [OF m] i show ?thesis
    by (auto simp add: index_def)
qed

lemma inplace_inputs_result:
  assumes "inplace_inputs inputs = Inr inputs'"
  shows "\<exists>dest. index inputs 2 = Inr dest
           \<and> index inputs' 2 =
               Inr (case owner dest of
                      Some (Apply (GpuAllocEmpty d) alloc_inputs) \<Rightarrow>
                        if length (clients dest) > 1 then GpuAllocEmpty_call d alloc_inputs
                        else dest
                    | _ \<Rightarrow> dest)"
  using assms
  by (auto simp add: inplace_inputs_def bindE_def index_def
      split: sum.splits if_splits option.splits node.splits op.splits)

lemma GpuDnnConv_init_result:
  assumes "GpuDnnConv_init s e (Some algo) ip = (Inr f, s')"
  shows "f = GpuDnnConv algo ip"
  using assms
  by (auto simp add: GpuDnnConv_init_def bindS_def Let_def split: prod.splits sum.splits if_splits)


lemma rule_buffer:
  assumes ii: "inplace_inputs (node_inputs n) = Inr inputs"
    and cc: "conv_call (conv_make_node f n1 n2 mo bad5 err5) inputs = Inr v"
  shows "\<exists>ins t dest buf.
            v = Out f ins t [] \<and> index (node_inputs n) 2 = Inr dest \<and> index ins 2 = Inr buf
          \<and> (\<forall>d ai. owner dest = Some (Apply (GpuAllocEmpty d) ai) \<and> length (clients dest) > 1
                \<longrightarrow> buf = GpuAllocEmpty_call d ai \<and> clients buf = [])
          \<and> ((\<nexists>d ai. owner dest = Some (Apply (GpuAllocEmpty d) ai)) \<or> length (clients dest) \<le> 1
                \<longrightarrow> as_gpuarray_variable dest = Inr buf)"
proof -
  from inplace_inputs_result [OF ii] obtain dest where
    d: "index (node_inputs n) 2 = Inr dest"
    and d': "index inputs 2 =
               Inr (case owner dest of
                      Some (Apply (GpuAllocEmpty d) alloc_inputs) \<Rightarrow>
                        if length (clients dest) > 1 then GpuAllocEmpty_call d alloc_inputs
                        else dest
                    | _ \<Rightarrow> dest)"
    by blast
  from conv_call_result [OF cc] d' obtain ins buf where
    v: "v = Out f ins (vtype_of buf) []" and b: "index ins 2 = Inr buf"
    and a: "as_gpuarray_variable
              (case owner dest of
                 Some (Apply (GpuAllocEmpty d) alloc_inputs) \<Rightarrow>
                   if length (clients dest) > 1 then GpuAllocEmpty_call d alloc_inputs
                   else dest
               | _ \<Rightarrow> dest) = Inr buf"
    by auto
  have 1: "buf = GpuAllocEmpty_call d ai \<and> clients buf = []"
    if "owner dest = Some (Apply (GpuAllocEmpty d) ai) \<and> length (clients dest) > 1" for d ai
    using a that by (auto simp add: as_gpuarray_variable_def GpuAllocEmpty_call_def)
  have 2: "as_gpuarray_variable dest = Inr buf"
    if "(\<nexists>d ai. owner dest = Some (Apply (GpuAllocEmpty d) ai)) \<or> length (clients dest) \<le> 1"
    using a that by (auto split: option.splits node.splits op.splits if_splits)
  from v d b 1 2 show ?thesis by blast
qed

text \<open>
  C2, as the claim states it, fails: a forward convolution whose output buffer is not the
  output of a \<^verbatim>\<open>GpuAllocEmpty\<close> (here the output of \<^verbatim>\<open>GpuContiguous\<close>) and has two
  consumers is rewritten to an in-place node on that same buffer; no allocation takes its
  place.
\<close>

theorem inplace_marks_shared_buffer:
  "local_dnn_conv_inplace initial_gate example_env
      (Apply (GpuDnnConv ''small'' False)
         [example_img, example_kerns, example_shared, example_desc, example_alpha, example_beta])
    = (Inr (Some [Out (GpuDnnConv ''small'' True)
                    [example_img, example_kerns, example_shared, example_desc,
                     example_alpha, example_beta] (GpuArrayType ''float32'' 4) []]),
       example_gate)
   \<and> destroy_map (GpuDnnConv ''small'' True) = [(0, [2])]
   \<and> length (clients example_shared) = 2"
  by (simp add: local_dnn_conv_inplace_def inplace_inputs_def index_def bindE_def bindS_def
        GpuDnnConv_init_def version_example fwd_algos_def conv_call_def GpuDnnConv_make_node_def
        conv_make_node_def as_gpuarray_variable_def ndim_def dtype_def ensure_dt_def
        as_scalar_def is_Scalar_def destroy_map_def example_gate_def
        example_img_def example_kerns_def example_shared_def example_desc_def
        example_alpha_def example_beta_def)

text \<open>
  C2, amended. Whenever one of the three in-place rules returns a replacement, the node was
  not in place, and the replacement is one application of the same operator with the same
  algorithm and \<^verbatim>\<open>inplace\<close> set, whose \<^verbatim>\<open>destroy_map\<close> says that output 0 overwrites
  input 2. When the third input of the matched node is the output of a \<^verbatim>\<open>GpuAllocEmpty\<close>
  and has more than one consumer, the third input of the new node is a new
  \<^verbatim>\<open>GpuAllocEmpty\<close> of the same dtype on the same inputs, which has no consumer yet; in
  every other case it is the third input of the matched node.
\<close>

theorem inplace_rules_buffer:
  "(local_dnn_conv_inplace s e n = (Inr (Some r), s') \<longrightarrow>
      (\<exists>algo ins t dest buf.
            node_op n = GpuDnnConv algo False \<and> r = [Out (GpuDnnConv algo True) ins t []]
          \<and> destroy_map (GpuDnnConv algo True) = [(0, [2])]
          \<and> index (node_inputs n) 2 = Inr dest \<and> index ins 2 = Inr buf
          \<and> (\<forall>d ai. owner dest = Some (Apply (GpuAllocEmpty d) ai) \<and> length (clients dest) > 1
                \<longrightarrow> buf = GpuAllocEmpty_call d ai \<and> clients buf = [])
          \<and> ((\<nexists>d ai. owner dest = Some (Apply (GpuAllocEmpty d) ai)) \<or> length (clients dest) \<le> 1
                \<longrightarrow> as_gpuarray_variable dest = Inr buf)))
   \<and> (local_dnn_convgw_inplace e n = Inr (Some r) \<longrightarrow>
      (\<exists>algo ins t dest buf.
            node_op n = GpuDnnConvGradW algo False \<and> r = [Out (GpuDnnConvGradW algo True) ins t []]
          \<and> destroy_map (GpuDnnConvGradW algo True) = [(0, [2])]
          \<and> index (node_inputs n) 2 = Inr dest \<and> index ins 2 = Inr buf
          \<and> (\<forall>d ai. owner dest = Some (Apply (GpuAllocEmpty d) ai) \<and> length (clients dest) > 1
                \<longrightarrow> buf = GpuAllocEmpty_call d ai \<and> clients buf = [])
          \<and> ((\<nexists>d ai. owner dest = Some (Apply (GpuAllocEmpty d) ai)) \<or> length (clients dest) \<le> 1
                \<longrightarrow> as_gpuarray_variable dest = Inr buf)))
   \<and> (local_dnn_convgi_inplace e n = Inr (Some r) \<longrightarrow>
      (\<exists>algo ins t dest buf.
            node_op n = GpuDnnConvGradI algo False \<and> r = [Out (GpuDnnConvGradI algo True) ins t []]
          \<and> destroy_map (GpuDnnConvGradI algo True) = [(0, [2])]
          \<and> index (node_inputs n) 2 = Inr dest \<and> index ins 2 = Inr buf
          \<and> (\<forall>d ai. owner dest = Some (Apply (GpuAllocEmpty d) ai) \<and> length (clients dest) > 1
                \<longrightarrow> buf = GpuAllocEmpty_call d ai \<and> clients buf = [])
          \<and> ((\<nexists>d ai. owner dest = Some (Apply (GpuAllocEmpty d) ai)) \<or> length (clients dest) \<le> 1
                \<longrightarrow> as_gpuarray_variable dest = Inr buf)))"
proof (intro conjI impI)
  assume f: "local_dnn_conv_inplace s e n = (Inr (Some r), s')"
  from f obtain algo where o: "node_op n = GpuDnnConv algo False"
    by (auto simp add: local_dnn_conv_inplace_def split: op.splits if_splits)
  from f o obtain inputs where ii: "inplace_inputs (node_inputs n) = Inr inputs"
    by (auto simp add: local_dnn_conv_inplace_def split: sum.splits)
  from f o ii obtain conv s1 where c: "GpuDnnConv_init s e (Some algo) True = (Inr conv, s1)"
    by (auto simp add: local_dnn_conv_inplace_def bindS_def split: sum.splits prod.splits)
  have conv: "conv = GpuDnnConv algo True" by (rule GpuDnnConv_init_result [OF c])
  from f o ii c conv obtain v where r: "r = [v]"
    and cc: "conv_call (GpuDnnConv_make_node (GpuDnnConv algo True)) inputs = Inr v"
    by (auto simp add: local_dnn_conv_inplace_def bindS_def bindE_def split: sum.splits)
  from rule_buffer [OF ii cc [unfolded GpuDnnConv_make_node_def [abs_def]]] r o
  show "\<exists>algo ins t dest buf.
            node_op n = GpuDnnConv algo False \<and> r = [Out (GpuDnnConv algo True) ins t []]
          \<and> destroy_map (GpuDnnConv algo True) = [(0, [2])]
          \<and> index (node_inputs n) 2 = Inr dest \<and> index ins 2 = Inr buf
          \<and> (\<forall>d ai. owner dest = Some (Apply (GpuAllocEmpty d) ai) \<and> length (clients dest) > 1
                \<longrightarrow> buf = GpuAllocEmpty_call d ai \<and> clients buf = [])
          \<and> ((\<nexists>d ai. owner dest = Some (Apply (GpuAllocEmpty d) ai)) \<or> length (clients dest) \<le> 1
                \<longrightarrow> as_gpuarray_variable dest = Inr buf)"
    by (simp add: destroy_map_def)
next
  assume f: "local_dnn_convgw_inplace e n = Inr (Some r)"
  from f obtain algo where o: "node_op n = GpuDnnConvGradW algo False"
    by (auto simp add: local_dnn_convgw_inplace_def split: op.splits if_splits)
  from f o obtain inputs where ii: "inplace_inputs (node_inputs n) = Inr inputs"
    by (auto simp add: local_dnn_convgw_inplace_def bindE_def split: sum.splits)
  from f o ii obtain v where r: "r = [v]"
    and cc: "conv_call (GpuDnnConvGradW_make_node (GpuDnnConvGradW algo True)) inputs = Inr v"
    by (auto simp add: local_dnn_convgw_inplace_def bindE_def GpuDnnConvGradW_init_def
        split: sum.splits if_splits)
  from rule_buffer [OF ii cc [unfolded GpuDnnConvGradW_make_node_def [abs_def]]] r o
  show "\<exists>algo ins t dest buf.
            node_op n = GpuDnnConvGradW algo False \<and> r = [Out (GpuDnnConvGradW algo True) ins t []]
          \<and> destroy_map (GpuDnnConvGradW algo True) = [(0, [2])]
          \<and> index (node_inputs n) 2 = Inr dest \<and> index ins 2 = Inr buf
          \<and> (\<forall>d ai. owner dest = Some (Apply (GpuAllocEmpty d) ai) \<and> length (clients dest) > 1
                \<longrightarrow> buf = GpuAllocEmpty_call d ai \<and> clients buf = [])
          \<and> ((\<nexists>d ai. owner dest = Some (Apply (GpuAllocEmpty d) ai)) \<or> length (clients dest) \<le> 1
                \<longrightarrow> as_gpuarray_variable dest = Inr buf)"
    by (simp add: destroy_map_def)
next
  assume f: "local_dnn_convgi_inplace e n = Inr (Some r)"
  from f obtain algo where o: "node_op n = GpuDnnConvGradI algo False"
    by (auto simp add: local_dnn_convgi_inplace_def split: op.splits if_splits)
  from f o obtain inputs where ii: "inplace_inputs (node_inputs n) = Inr inputs"
    by (auto simp add: local_dnn_convgi_inplace_def bindE_def split: sum.splits)
  from f o ii obtain v where r: "r = [v]"
    and cc: "conv_call (GpuDnnConvGradI_make_node (GpuDnnConvGradI algo True)) inputs = Inr v"
    by (auto simp add: local_dnn_convgi_inplace_def bindE_def GpuDnnConvGradI_init_def
        split: sum.splits if_splits)
  from rule_buffer [OF ii cc [unfolded GpuDnnConvGradI_make_node_def [abs_def]]] r o
  show "\<exists>algo ins t dest buf.
            node_op n = GpuDnnConvGradI algo False \<and> r = [Out (GpuDnnConvGradI algo True) ins t []]
          \<and> destroy_map (GpuDnnConvGradI algo True) = [(0, [2])]
          \<and> index (node_inputs n) 2 = Inr dest \<and> index ins 2 = Inr buf
          \<and> (\<forall>d ai. owner dest = Some (Apply (GpuAllocEmpty d) ai) \<and> length (clients dest) > 1
                \<longrightarrow> buf = GpuAllocEmpty_call d ai \<and> clients buf = [])
          \<and> ((\<nexists>d ai. owner dest = Some (Apply (GpuAllocEmpty d) ai)) \<or> length (clients dest) \<le> 1
                \<longrightarrow> as_gpuarray_variable dest = Inr buf)"
    by (simp add: destroy_map_def)
qed

theorem inplace_rules_buffer_witness:
  "(\<exists>ins. local_dnn_convgw_inplace example_env
      (Apply (GpuDnnConvGradW ''none'' False)
         [example_img, example_top, example_alloc, example_desc, example_alpha, example_beta])
    = Inr (Some [Out (GpuDnnConvGradW ''none'' True) ins (GpuArrayType ''float32'' 4) []])
   \<and> index ins 2 = Inr (GpuAllocEmpty_call ''float32''
                         [shape_i example_img 0, shape_i example_kerns 0,
                          shape_i example_img 2, shape_i example_img 3])
   \<and> clients (GpuAllocEmpty_call ''float32''
                         [shape_i example_img 0, shape_i example_kerns 0,
                          shape_i example_img 2, shape_i example_img 3]) = [])
   \<and> (\<exists>ins. local_dnn_conv_inplace initial_gate example_env
      (Apply (GpuDnnConv ''small'' False)
         [example_img, example_kerns, example_alloc, example_desc, example_alpha, example_beta])
    = (Inr (Some [Out (GpuDnnConv ''small'' True) ins (GpuArrayType ''float32'' 4) []]),
       example_gate)
   \<and> index ins 2 = Inr (GpuAllocEmpty_call ''float32''
                         [shape_i example_img 0, shape_i example_kerns 0,
                          shape_i example_img 2, shape_i example_img 3]))
   \<and> (\<exists>ins. local_dnn_convgi_inplace example_env
      (Apply (GpuDnnConvGradI ''none'' False)
         [example_kerns, example_top, example_alloc, example_desc, example_alpha, example_beta])
    = Inr (Some [Out (GpuDnnConvGradI ''none'' True) ins (GpuArrayType ''float32'' 4) []])
   \<and> index ins 2 = Inr (GpuAllocEmpty_call ''float32''
                         [shape_i example_img 0, shape_i example_kerns 0,
                          shape_i example_img 2, shape_i example_img 3]))"
proof -
  let ?n = "Apply (GpuDnnConvGradW ''none'' False)
         [example_img, example_top, example_alloc, example_desc, example_alpha, example_beta]"
  let ?fresh = "GpuAllocEmpty_call ''float32''
                         [shape_i example_img 0, shape_i example_kerns 0,
                          shape_i example_img 2, shape_i example_img 3]"
  let ?r = "[Out (GpuDnnConvGradW ''none'' True)
               [example_img, example_top, ?fresh, example_desc, example_alpha, example_beta]
               (GpuArrayType ''float32'' 4) []]"
  have ev: "local_dnn_convgw_inplace example_env ?n = Inr (Some ?r)"
    by (simp add: local_dnn_convgw_inplace_def inplace_inputs_def index_def bindE_def
        GpuDnnConvGradW_init_def bwd_algos_def conv_call_def GpuDnnConvGradW_make_node_def
        conv_make_node_def as_gpuarray_variable_def ndim_def dtype_def ensure_dt_def
        as_scalar_def is_Scalar_def GpuAllocEmpty_call_def example_env_def
        example_img_def example_top_def example_alloc_def example_desc_def
        example_alpha_def example_beta_def)
  from inplace_rules_buffer [where n = ?n and r = ?r and e = example_env, THEN conjunct2, THEN conjunct1,
      rule_format, OF ev]
  obtain ins t dest buf where
    r: "?r = [Out (GpuDnnConvGradW ''none'' True) ins t []]"
    and d: "index (node_inputs ?n) 2 = Inr dest" and b: "index ins 2 = Inr buf"
    and fr: "\<forall>d ai. owner dest = Some (Apply (GpuAllocEmpty d) ai) \<and> length (clients dest) > 1
                \<longrightarrow> buf = GpuAllocEmpty_call d ai \<and> clients buf = []"
    by auto
  from d have dest: "dest = example_alloc" by (simp add: index_def)
  have "owner example_alloc = Some (Apply (GpuAllocEmpty ''float32'')
                         [shape_i example_img 0, shape_i example_kerns 0,
                          shape_i example_img 2, shape_i example_img 3])
        \<and> length (clients example_alloc) > 1"
    by (simp add: example_alloc_def)
  with fr dest have "buf = ?fresh \<and> clients buf = []" by blast
  with ev r b have 0: "\<exists>ins. local_dnn_convgw_inplace example_env
      (Apply (GpuDnnConvGradW ''none'' False)
         [example_img, example_top, example_alloc, example_desc, example_alpha, example_beta])
    = Inr (Some [Out (GpuDnnConvGradW ''none'' True) ins (GpuArrayType ''float32'' 4) []])
   \<and> index ins 2 = Inr (GpuAllocEmpty_call ''float32''
                         [shape_i example_img 0, shape_i example_kerns 0,
                          shape_i example_img 2, shape_i example_img 3])
   \<and> clients (GpuAllocEmpty_call ''float32''
                         [shape_i example_img 0, shape_i example_kerns 0,
                          shape_i example_img 2, shape_i example_img 3]) = []"
    by auto
  let ?fresh = "GpuAllocEmpty_call ''float32''
                         [shape_i example_img 0, shape_i example_kerns 0,
                          shape_i example_img 2, shape_i example_img 3]"
  have al: "owner example_alloc = Some (Apply (GpuAllocEmpty ''float32'')
                         [shape_i example_img 0, shape_i example_kerns 0,
                          shape_i example_img 2, shape_i example_img 3])
        \<and> length (clients example_alloc) > 1"
    by (simp add: example_alloc_def)
  let ?n = "Apply (GpuDnnConv ''small'' False)
         [example_img, example_kerns, example_alloc, example_desc, example_alpha, example_beta]"
  let ?r = "[Out (GpuDnnConv ''small'' True)
               [example_img, example_kerns, ?fresh, example_desc, example_alpha, example_beta]
               (GpuArrayType ''float32'' 4) []]"
  have ev: "local_dnn_conv_inplace initial_gate example_env ?n = (Inr (Some ?r), example_gate)"
    by (simp add: local_dnn_conv_inplace_def inplace_inputs_def index_def bindE_def bindS_def
        GpuDnnConv_init_def version_example fwd_algos_def conv_call_def GpuDnnConv_make_node_def
        conv_make_node_def as_gpuarray_variable_def ndim_def dtype_def ensure_dt_def
        as_scalar_def is_Scalar_def GpuAllocEmpty_call_def example_gate_def
        example_img_def example_kerns_def example_alloc_def example_desc_def
        example_alpha_def example_beta_def)
  from inplace_rules_buffer [where n = ?n and r = ?r and e = example_env and s = initial_gate
      and s' = example_gate, THEN conjunct1, rule_format, OF ev]
  obtain ins t dest buf where
    r: "?r = [Out (GpuDnnConv ''small'' True) ins t []]"
    and d: "index (node_inputs ?n) 2 = Inr dest" and b: "index ins 2 = Inr buf"
    and fr: "\<forall>d ai. owner dest = Some (Apply (GpuAllocEmpty d) ai) \<and> length (clients dest) > 1
                \<longrightarrow> buf = GpuAllocEmpty_call d ai \<and> clients buf = []"
    by auto
  from d have "dest = example_alloc" by (simp add: index_def)
  with fr al have "buf = ?fresh" by blast
  with ev r b have 1: "\<exists>ins. local_dnn_conv_inplace initial_gate example_env ?n
    = (Inr (Some [Out (GpuDnnConv ''small'' True) ins (GpuArrayType ''float32'' 4) []]),
       example_gate) \<and> index ins 2 = Inr ?fresh"
    by auto
  let ?n = "Apply (GpuDnnConvGradI ''none'' False)
         [example_kerns, example_top, example_alloc, example_desc, example_alpha, example_beta]"
  let ?r = "[Out (GpuDnnConvGradI ''none'' True)
               [example_kerns, example_top, ?fresh, example_desc, example_alpha, example_beta]
               (GpuArrayType ''float32'' 4) []]"
  have ev: "local_dnn_convgi_inplace example_env ?n = Inr (Some ?r)"
    by (simp add: local_dnn_convgi_inplace_def inplace_inputs_def index_def bindE_def
        GpuDnnConvGradI_init_def bwd_algos_def conv_call_def GpuDnnConvGradI_make_node_def
        conv_make_node_def as_gpuarray_variable_def ndim_def dtype_def ensure_dt_def
        as_scalar_def is_Scalar_def GpuAllocEmpty_call_def example_env_def
        example_kerns_def example_img_def example_top_def example_alloc_def example_desc_def
        example_alpha_def example_beta_def)
  from inplace_rules_buffer [where n = ?n and r = ?r and e = example_env,
      THEN conjunct2, THEN conjunct2, rule_format, OF ev]
  obtain ins t dest buf where
    r: "?r = [Out (GpuDnnConvGradI ''none'' True) ins t []]"
    and d: "index (node_inputs ?n) 2 = Inr dest" and b: "index ins 2 = Inr buf"
    and fr: "\<forall>d ai. owner dest = Some (Apply (GpuAllocEmpty d) ai) \<and> length (clients dest) > 1
                \<longrightarrow> buf = GpuAllocEmpty_call d ai \<and> clients buf = []"
    by auto
  from d have "dest = example_alloc" by (simp add: index_def)
  with fr al have "buf = ?fresh" by blast
  with ev r b have 2: "\<exists>ins. local_dnn_convgi_inplace example_env ?n
    = Inr (Some [Out (GpuDnnConvGradI ''none'' True) ins (GpuArrayType ''float32'' 4) []])
      \<and> index ins 2 = Inr ?fresh"
    by auto
  from 0 1 2 show ?thesis by blast
qed

subsection \<open>The average-pooling gradient\<close>

lemma dnn_available_example:
  "dnn_available initial_gate example_env = (Inr (Some True), example_gate)"
  by (simp add: dnn_available.simps version_cached initial_gate_def example_env_def Let_def
        startswith_def drop_last2_def example_gate_def)

lemma version_example_gate:
  "version example_gate example_env = (Inr 3007, example_gate)"
  by (simp add: version_cached example_gate_def)

lemma gpu_contiguous_result:
  assumes "gpu_contiguous x = Inr y"
  shows "\<exists>d n. vtype_of y = GpuArrayType d n" and "as_gpuarray_variable y = Inr y"
  using assms
  by (auto simp add: gpu_contiguous_def as_gpuarray_variable_def bindE_def split: vtype.splits)

lemma GpuDnnPoolGrad_make_node_result:
  assumes "GpuDnnPoolGrad_make_node inp out out_grad desc = Inr v"
    and "as_gpuarray_variable inp = Inr inp" and "as_gpuarray_variable out = Inr out"
    and "as_gpuarray_variable out_grad = Inr out_grad"
  shows "v = Out GpuDnnPoolGrad [inp, out, out_grad, desc] (vtype_of inp) []"
  using assms
  by (auto simp add: GpuDnnPoolGrad_make_node_def bindE_def split: sum.splits if_splits)

text \<open>
  C9. Whenever the rule that lifts an average-pooling gradient returns a replacement, the
  node has the two inputs \<open>inp\<close> and \<open>out_grad\<close>, and the replacement is the application of
  \<^verbatim>\<open>GpuDnnPoolGrad\<close> to the contiguous \<open>inp\<close>, the contiguous \<open>out_grad\<close>, the contiguous
  \<open>out_grad\<close> once more, and a descriptor: the slot of the forward output and the slot of
  the output gradient hold the same variable.
\<close>

theorem local_avg_pool_dnn_grad_stride_slots:
  assumes "local_avg_pool_dnn_grad_stride s e n = (Inr (Some v), s')"
  shows "\<exists>inp out_grad ci cg desc.
           node_inputs n = [inp, out_grad]
         \<and> gpu_contiguous out_grad = Inr cg
         \<and> gpu_contiguous inp = Inr ci
         \<and> v = Out GpuDnnPoolGrad [ci, cg, cg, desc] (vtype_of ci) []"
proof -
  from assms obtain a s1 where da: "dnn_available s e = (Inr a, s1)"
    by (auto simp add: local_avg_pool_dnn_grad_stride_def bindS_def split: prod.splits sum.splits)
  from assms da obtain ds st pad mode inp out_grad where
    n: "node_op n = AveragePoolGrad ds True st pad mode" "node_inputs n = [inp, out_grad]"
    by (auto simp add: local_avg_pool_dnn_grad_stride_def bindS_def
        split: op.splits if_splits list.splits)
  from assms da n obtain cg where cg: "gpu_contiguous out_grad = Inr cg"
    by (auto simp add: local_avg_pool_dnn_grad_stride_def bindS_def
        split: if_splits sum.splits)
  from assms da n cg obtain dop s2 where
    dop: "GpuDnnPoolDesc_init s1 e ds st mode pad = (Inr dop, s2)"
    by (auto simp add: local_avg_pool_dnn_grad_stride_def bindS_def
        split: if_splits sum.splits prod.splits)
  from assms da n cg dop obtain desc ci where
    ci: "gpu_contiguous inp = Inr ci" and
    mk: "GpuDnnPoolGrad_make_node ci cg cg desc = Inr v"
    by (auto simp add: local_avg_pool_dnn_grad_stride_def bindS_def bindE_def
        split: if_splits sum.splits prod.splits)
  from GpuDnnPoolGrad_make_node_result [OF mk gpu_contiguous_result(2) [OF ci]
      gpu_contiguous_result(2) [OF cg] gpu_contiguous_result(2) [OF cg]]
  have "v = Out GpuDnnPoolGrad [ci, cg, cg, desc] (vtype_of ci) []" .
  with n cg ci show ?thesis by blast
qed

theorem local_avg_pool_dnn_grad_stride_slots_witness:
  "\<exists>ci cg desc.
     local_avg_pool_dnn_grad_stride initial_gate example_env
       (Apply (AveragePoolGrad [2, 2] True [2, 2] [0, 0] ''average_exc_pad'')
          [example_img, example_top])
     = (Inr (Some (Out GpuDnnPoolGrad [ci, cg, cg, desc] (GpuArrayType ''float32'' 4) [])),
        example_gate)
   \<and> gpu_contiguous example_top = Inr cg \<and> gpu_contiguous example_img = Inr ci"
proof -
  let ?n = "Apply (AveragePoolGrad [2, 2] True [2, 2] [0, 0] ''average_exc_pad'')
              [example_img, example_top]"
  let ?cg = "Out GpuContiguous [example_top] (GpuArrayType ''float32'' 4) []"
  let ?ci = "Out GpuContiguous [example_img] (GpuArrayType ''float32'' 4) []"
  let ?desc = "Out (GpuDnnPoolDesc [2, 2] [2, 2] ''average_exc_pad'' [0, 0]) []
                 (CDataType pool_desc_ctype) []"
  let ?v = "Out GpuDnnPoolGrad [?ci, ?cg, ?cg, ?desc] (GpuArrayType ''float32'' 4) []"
  have ev: "local_avg_pool_dnn_grad_stride initial_gate example_env ?n = (Inr (Some ?v), example_gate)"
    by (simp add: local_avg_pool_dnn_grad_stride_def dnn_available_example bindS_def bindE_def
        gpu_contiguous_def as_gpuarray_variable_def GpuDnnPoolDesc_init_def
        GpuDnnPoolDesc_make_node_def GpuDnnPoolGrad_make_node_def get_ndim_def ndim_def
        example_img_def example_top_def)
  from local_avg_pool_dnn_grad_stride_slots [OF ev] obtain inp out_grad ci cg desc where
    "node_inputs ?n = [inp, out_grad]" "gpu_contiguous out_grad = Inr cg"
    "gpu_contiguous inp = Inr ci" "?v = Out GpuDnnPoolGrad [ci, cg, cg, desc] (vtype_of ci) []"
    by blast
  with ev show ?thesis by auto
qed

subsection \<open>The log-softmax fusion\<close>

lemma dnn_available_result:
  assumes "dnn_available s e = (Inr a, s1)"
  shows "avail s1 = a"
proof (cases "avail s")
  case (Some b)
  with assms show ?thesis by (simp add: dnn_available_cached)
next
  case None
  define s0 where "s0 = s\<lparr>probe_runs := Suc (probe_runs s)\<rparr>"
  define s2 where "s2 = (if drop_last2 (bin_id e) < ''30''
                         then s0\<lparr>msg := Some msg_device, avail := Some False\<rparr> else s0)
                        \<lparr>avail := Some (fst (try_flags e))\<rparr>"
  have a2: "avail s2 = Some (fst (try_flags e))" by (simp add: s2_def)
  obtain r s3 where v: "version s2 e = (r, s3)" by (cases "version s2 e")
  have k: "avail s3 = Some (fst (try_flags e))"
    using version_keeps [OF a2, of e] v by simp
  from assms None v k show ?thesis
    by (subst (asm) dnn_available.simps)
       (auto simp add: Let_def s0_def s2_def split: if_splits sum.splits)
qed

lemma version_result:
  assumes "version s e = (Inr v, s')"
  shows "avail s' = Some True" and "version_v s' = Some v"
proof -
  obtain r s1 where d: "dnn_available s e = (r, s1)" by (cases "dnn_available s e")
  from assms d obtain a where r: "r = Inr a" "a = Some True"
    by (subst (asm) version.simps) (auto split: sum.splits if_splits)
  from dnn_available_result d r have a1: "avail s1 = Some True" by simp
  from assms d r a1 show "avail s' = Some True" and "version_v s' = Some v"
    by (subst (asm) version.simps; auto split: option.splits if_splits)+
qed

lemma version_again:
  assumes "version s e = (Inr v, s')"
  shows "version s' e' = (Inr v, s')"
  using version_result [OF assms] by (simp add: version_cached)

text \<open>
  C8. The rule \<^verbatim>\<open>local_log_softmax_dnn\<close> returns a replacement only when the gate reports
  the backend available with a version of at least 3000, the node is an elementwise
  logarithm, its input is the output of a \<^verbatim>\<open>GpuDnnSoftmax\<close> and has exactly one consumer;
  the replacement is then one \<^verbatim>\<open>GpuDnnSoftmax\<close> node with the algorithm \<^verbatim>\<open>'log'\<close> and
  the mode of the softmax it replaces, applied to the input of that softmax. Conversely,
  under these conditions, for a softmax of mode \<^verbatim>\<open>'instance'\<close> or \<^verbatim>\<open>'channel'\<close> over a GPU
  array of rank 4, the rule returns this replacement.
\<close>

theorem local_log_softmax_dnn_fires:
  "(local_log_softmax_dnn s e n = (Inr (Some r), s') \<longrightarrow>
      (\<exists>s1 v sm mode algo x rest x'.
          dnn_available s e = (Inr (Some True), s1) \<and> version s1 e = (Inr v, s') \<and> 3000 \<le> v
        \<and> node_op n = GpuElemwise Log \<and> index (node_inputs n) 0 = Inr sm
        \<and> owner sm = Some (Apply (GpuDnnSoftmax mode algo) (x # rest))
        \<and> length (clients sm) = 1
        \<and> as_gpuarray_variable x = Inr x'
        \<and> r = [Out (GpuDnnSoftmax mode ''log'') [x'] (vtype_of x') []]))
   \<and> (dnn_available s e = (Inr (Some True), s1) \<longrightarrow> version s1 e = (Inr v, s2) \<longrightarrow> 3000 \<le> v
        \<longrightarrow> node_op n = GpuElemwise Log \<longrightarrow> index (node_inputs n) 0 = Inr sm
        \<longrightarrow> owner sm = Some (Apply (GpuDnnSoftmax mode algo) (x # rest))
        \<longrightarrow> length (clients sm) = 1
        \<longrightarrow> mode = ''instance'' \<or> mode = ''channel''
        \<longrightarrow> vtype_of x = GpuArrayType d 4
        \<longrightarrow> local_log_softmax_dnn s e n
              = (Inr (Some [Out (GpuDnnSoftmax mode ''log'') [x] (GpuArrayType d 4) []]), s2))"
proof (intro conjI impI)
  assume "dnn_available s e = (Inr (Some True), s1)" "version s1 e = (Inr v, s2)" "3000 \<le> v"
    "node_op n = GpuElemwise Log" "index (node_inputs n) 0 = Inr sm"
    "owner sm = Some (Apply (GpuDnnSoftmax mode algo) (x # rest))"
    "length (clients sm) = 1" "mode = ''instance'' \<or> mode = ''channel''"
    "vtype_of x = GpuArrayType d 4"
  then show "local_log_softmax_dnn s e n
              = (Inr (Some [Out (GpuDnnSoftmax mode ''log'') [x] (GpuArrayType d 4) []]), s2)"
    using version_again [of s1 e v s2 e]
    by (auto simp add: local_log_softmax_dnn_def bindS_def GpuDnnSoftmax_init_def
        GpuDnnSoftmax_make_node_def as_gpuarray_variable_gpu bindE_def index_def ndim_def)
next
  assume f: "local_log_softmax_dnn s e n = (Inr (Some r), s')"
  from f obtain s1 where da: "dnn_available s e = (Inr (Some True), s1)"
    by (auto simp add: local_log_softmax_dnn_def bindS_def split: prod.splits sum.splits if_splits)
  from f da obtain v s2 where ve: "version s1 e = (Inr v, s2)" and v3: "3000 \<le> v"
    by (auto simp add: local_log_softmax_dnn_def bindS_def split: prod.splits sum.splits if_splits)
  from f da ve v3 obtain sm where
    n: "node_op n = GpuElemwise Log" "index (node_inputs n) 0 = Inr sm"
    by (auto simp add: local_log_softmax_dnn_def bindS_def
        split: op.splits if_splits sum.splits)
  from f da ve v3 n obtain mode algo ins where
    o: "owner sm = Some (Apply (GpuDnnSoftmax mode algo) ins)" and c: "length (clients sm) = 1"
    by (auto simp add: local_log_softmax_dnn_def bindS_def
        split: op.splits if_splits option.splits node.splits)
  have va: "version s2 e = (Inr v, s2)" by (rule version_again [OF ve])
  from f da ve v3 n o c va have "ins \<noteq> []"
    by (auto simp add: local_log_softmax_dnn_def bindS_def GpuDnnSoftmax_init_def
        bindE_def index_def split: if_splits)
  then obtain x rest where i: "ins = x # rest" by (cases ins) auto
  from f da ve v3 n o c va i obtain x' where
    "as_gpuarray_variable x = Inr x'"
    "r = [Out (GpuDnnSoftmax mode ''log'') [x'] (vtype_of x') []]" "s' = s2"
    by (auto simp add: local_log_softmax_dnn_def bindS_def GpuDnnSoftmax_init_def
        GpuDnnSoftmax_make_node_def bindE_def index_def
        split: if_splits sum.splits)
  with da ve v3 n o c i
  show "\<exists>s1 v sm mode algo x rest x'.
          dnn_available s e = (Inr (Some True), s1) \<and> version s1 e = (Inr v, s') \<and> 3000 \<le> v
        \<and> node_op n = GpuElemwise Log \<and> index (node_inputs n) 0 = Inr sm
        \<and> owner sm = Some (Apply (GpuDnnSoftmax mode algo) (x # rest))
        \<and> length (clients sm) = 1
        \<and> as_gpuarray_variable x = Inr x'
        \<and> r = [Out (GpuDnnSoftmax mode ''log'') [x'] (vtype_of x') []]"
    by blast
qed

theorem local_log_softmax_dnn_fires_witness:
  "local_log_softmax_dnn initial_gate example_env (Apply (GpuElemwise Log) [example_softmax])
     = (Inr (Some [Out (GpuDnnSoftmax ''channel'' ''log'') [example_img]
                     (GpuArrayType ''float32'' 4) []]), example_gate)
   \<and> (\<exists>s1 v. dnn_available initial_gate example_env = (Inr (Some True), s1)
          \<and> version s1 example_env = (Inr v, example_gate) \<and> 3000 \<le> v)"
proof -
  have "node_op (Apply (GpuElemwise Log) [example_softmax]) = GpuElemwise Log"
    and "index (node_inputs (Apply (GpuElemwise Log) [example_softmax])) 0 = Inr example_softmax"
    and "owner example_softmax
           = Some (Apply (GpuDnnSoftmax ''channel'' ''accurate'') (example_img # []))"
    and "length (clients example_softmax) = 1"
    and "''channel'' = ''instance'' \<or> ''channel'' = ''channel''"
    and "vtype_of example_img = GpuArrayType ''float32'' 4"
    by (simp_all add: index_def example_softmax_def example_img_def)
  from local_log_softmax_dnn_fires [THEN conjunct2, rule_format,
      OF dnn_available_example version_example_gate _ this]
  have ev: "local_log_softmax_dnn initial_gate example_env
              (Apply (GpuElemwise Log) [example_softmax])
            = (Inr (Some [Out (GpuDnnSoftmax ''channel'' ''log'') [example_img]
                            (GpuArrayType ''float32'' 4) []]), example_gate)"
    by simp
  from local_log_softmax_dnn_fires [THEN conjunct1, rule_format, OF ev]
  have "\<exists>s1 v. dnn_available initial_gate example_env = (Inr (Some True), s1)
          \<and> version s1 example_env = (Inr v, example_gate) \<and> 3000 \<le> v"
    by blast
  with ev show ?thesis by simp
qed

end
